theory Spec2Isabelle
  imports Complex_Main
begin

section \<open>Conventions of the embedding\<close>

text \<open>
  The message-send pipeline of the gateway is embedded function by function.

  \<^item> A JavaScript \<open>number\<close> that carries a quantity (a cost, a delay, a jitter draw)
    is an exact rational (\<open>rat\<close>); counters and token counts are \<open>nat\<close>, status
    codes and clock readings (milliseconds since the epoch) are \<open>int\<close>. Rounding of
    IEEE doubles is outside the embedding: arithmetic is exact.
  \<^item> A string is its UTF-8 byte sequence.
  \<^item> A thrown exception is a value of type \<open>thrown\<close>; a function that can throw
    after it has written returns its result together with the world it leaves.
  \<^item> \<open>Math.random()\<close>, the clock, \<open>uuidv4()\<close>, the two vendors and the JSON
    codec of the response envelope are oracles of an environment record \<open>env\<close>; the
    world counts how many values were drawn from each oracle, so every function of
    the embedding is deterministic and an \<open>await\<close> is a function call.
  \<^item> A table of the store is the list of its rows in insertion order; the tables
    read by primary key (\<open>sessions\<close>, \<open>agents\<close>) are maps from the \<open>id\<close> to the
    rest of the row. Generated ids are taken to be fresh and the foreign keys to
    hold, so the only constraint of the store that can fail an insert is the unique
    index on \<open>(tenantId, scope, idempotencyKey)\<close>.
  \<^item> Record fields carry a prefix naming their record (\<open>msg_tenantId\<close> is the
    \<open>tenantId\<close> of a \<open>Message\<close>), since the source reuses the field names.
\<close>

section \<open>Data model\<close>

subsection \<open>Provider types (\<open>providers/types.ts\<close>)\<close>

record chatMessage =
  cm_role :: string
  cm_content :: string

record providerRequest =
  req_systemPrompt :: string
  req_messages :: "chatMessage list"
  req_enabledTools :: "string list"

record normalizedResponse =
  nr_text :: string
  nr_tokensIn :: nat
  nr_tokensOut :: nat
  nr_latencyMs :: int

record providerError =
  pe_message :: string
  pe_statusCode :: int
  pe_errorCode :: string
  pe_retryAfterMs :: "rat option"

text \<open>
  How one \<open>provider.call(request)\<close> raced against the timer of \<open>withTimeout\<close>
  ends: the promise resolves, rejects with a \<open>ProviderError\<close>, rejects with
  something else, or is still pending when the timer fires.
\<close>

datatype callOutcome =
    Resolves normalizedResponse
  | Rejects providerError
  | RejectsOther
  | TimesOut

text \<open>
  An adapter: its \<open>name\<close> and its \<open>call\<close>. The first argument of \<open>ad_call\<close> is the
  number of vendor calls issued before this one, so that an adapter may answer
  differently each time (the mocks of the repository are random).
\<close>

record providerAdapter =
  ad_name :: string
  ad_call :: "nat \<Rightarrow> providerRequest \<Rightarrow> callOutcome"

subsection \<open>Retry engine types (\<open>reliability/\<close>)\<close>

record retryConfig =
  maxRetries :: nat
  initialBackoffMs :: rat
  timeoutMs :: nat

datatype attemptStatus = success_status | failed_status

record providerCallAttempt =
  a_provider :: string
  a_status :: attemptStatus
  a_httpStatus :: "int option"
  a_latencyMs :: int
  a_retries :: nat
  a_errorCode :: "string option"
  a_errorMessage :: "string option"

record providerCallResult =
  pr_success :: bool
  pr_response :: "normalizedResponse option"
  pr_error :: "providerError option"
  pr_attempts :: "providerCallAttempt list"
  pr_providerUsed :: string
  pr_fallbackUsed :: bool

record callContext =
  ctx_tenantId :: string
  ctx_sessionId :: string
  ctx_agentId :: string
  ctx_requestId :: string

subsection \<open>Thrown values (\<open>utils/errors.ts\<close>, Prisma, plain \<open>Error\<close>)\<close>

datatype thrown =
    IDEMPOTENCY_KEY_REQUIRED string
  | SESSION_NOT_FOUND string string
  | AGENT_NOT_FOUND string string
  | ALL_PROVIDERS_FAILED string "string option" "providerCallAttempt list" string
  | PrismaError string
  | Error string

subsection \<open>Rows of the store (the Prisma schema)\<close>

record idempotencyRecord =
  idem_id :: string
  idem_tenantId :: string
  idem_scope :: string
  idem_idempotencyKey :: string
  idem_sessionId :: "string option"
  idem_requestHash :: string
  idem_responseJson :: "string option"
  idem_createdAt :: int

record session =
  ses_tenantId :: string
  ses_agentId :: string
  ses_customerId :: string
  ses_metadataJson :: string
  ses_status :: string
  ses_createdAt :: int
  ses_lastActivityAt :: int

record agent =
  agt_tenantId :: string
  agt_name :: string
  agt_primaryProvider :: string
  agt_fallbackProvider :: "string option"
  agt_systemPrompt :: string
  agt_enabledToolsJson :: string
  agt_createdAt :: int
  agt_updatedAt :: int

record message =
  msg_id :: string
  msg_tenantId :: string
  msg_sessionId :: string
  msg_role :: string
  msg_content :: string
  msg_createdAt :: int

record providerCallEvent =
  pce_id :: string
  pce_tenantId :: string
  pce_sessionId :: string
  pce_agentId :: string
  pce_provider :: string
  pce_status :: attemptStatus
  pce_httpStatus :: "int option"
  pce_latencyMs :: "int option"
  pce_retries :: nat
  pce_errorCode :: "string option"
  pce_errorMessage :: "string option"
  pce_createdAt :: int
  pce_requestId :: string

record usageEvent =
  ue_id :: string
  ue_tenantId :: string
  ue_sessionId :: string
  ue_agentId :: string
  ue_provider :: string
  ue_tokensIn :: nat
  ue_tokensOut :: nat
  ue_costUsd :: rat
  ue_createdAt :: int
  ue_requestId :: string

subsection \<open>The response envelope (\<open>SendMessageResponse\<close>)\<close>

record responseMessage =
  rm_id :: string
  rm_sessionId :: string
  rm_role :: string
  rm_content :: string
  rm_createdAt :: int

record responseAttempt =
  ra_provider :: string
  ra_status :: attemptStatus
  ra_httpStatus :: "int option"
  ra_latencyMs :: int
  ra_retries :: nat
  ra_errorCode :: "string option"

record responseUsage =
  ru_tokensIn :: nat
  ru_tokensOut :: nat
  ru_costUsd :: rat
  ru_usdPer1kTokens :: rat

record responseIdempotency =
  ri_key :: string
  ri_replayed :: bool

record responseMetadata =
  md_agentId :: string
  md_providerUsed :: string
  md_primaryAttempted :: string
  md_fallbackAttempted :: "string option"
  md_fallbackUsed :: bool
  md_attempts :: "responseAttempt list"
  md_usage :: responseUsage
  md_idempotency :: responseIdempotency
  md_requestId :: string

record sendMessageResponse =
  smr_message :: responseMessage
  smr_metadata :: responseMetadata

subsection \<open>Environment and world\<close>

record env =
  nowOracle :: "nat \<Rightarrow> int"
  uuidOracle :: "nat \<Rightarrow> string"
  randomOracle :: "nat \<Rightarrow> rat"
  vendorAOracle :: "nat \<Rightarrow> providerRequest \<Rightarrow> callOutcome"
  vendorBOracle :: "nat \<Rightarrow> providerRequest \<Rightarrow> callOutcome"
  parseToolsOracle :: "string \<Rightarrow> string list option"
  stringifyOracle :: "sendMessageResponse \<Rightarrow> string"
  parseResponseOracle :: "string \<Rightarrow> sendMessageResponse option"

record world =
  idempotency_records :: "idempotencyRecord list"
  sessions :: "string \<rightharpoonup> session"
  agents :: "string \<rightharpoonup> agent"
  messages :: "message list"
  provider_call_events :: "providerCallEvent list"
  usage_events :: "usageEvent list"
  clockReads :: nat
  uuidsDrawn :: nat
  randomDraws :: nat
  vendorCalls :: nat
  sleeps :: "rat list"


section \<open>Pricing (\<open>billing/pricing.ts\<close>)\<close>

text \<open>\<open>PRICING_TABLE\<close>: USD per 1000 tokens; an absent key reads \<open>undefined\<close>.\<close>

definition PRICING_TABLE :: "string \<Rightarrow> rat option" where
  "PRICING_TABLE provider =
     (if provider = ''vendorA'' then Some (2 / 1000)
      else if provider = ''vendorB'' then Some (3 / 1000)
      else None)"

text \<open>\<open>Math.round\<close>: the nearest integer, a tie going towards \<open>+\<infinity>\<close>.\<close>

definition Math_round :: "rat \<Rightarrow> int" where
  "Math_round x = \<lfloor>x + 1 / 2\<rfloor>"

definition calculateCost :: "string \<Rightarrow> rat \<Rightarrow> rat \<Rightarrow> thrown + rat" where
  "calculateCost provider tokensIn tokensOut =
     (case PRICING_TABLE provider of
        None \<Rightarrow> Inl (Error (''Unknown provider: '' @ provider))
      | Some pricing \<Rightarrow>
          (let totalTokens = tokensIn + tokensOut;
               costUsd = (totalTokens / 1000) * pricing
           in Inr (of_int (Math_round (costUsd * 1000000)) / 1000000)))"

text \<open>
  The specification's side of the pricing claim, following its words:
  \<open>rate = {vendorA: 0.002, vendorB: 0.003}\<close> and \<open>round6\<close>, round-half-to-even at
  six decimal places.
\<close>

definition spec_rate :: "string \<Rightarrow> rat" where
  "spec_rate vendor = (if vendor = ''vendorA'' then 2 / 1000 else 3 / 1000)"

definition round_half_even :: "rat \<Rightarrow> int" where
  "round_half_even x =
     (let f = \<lfloor>x\<rfloor>; d = x - of_int f
      in if d < 1 / 2 then f
         else if 1 / 2 < d then f + 1
         else if even f then f else f + 1)"

definition round6 :: "rat \<Rightarrow> rat" where
  "round6 x = of_int (round_half_even (x * 1000000)) / 1000000"

definition spec_cost :: "string \<Rightarrow> nat \<Rightarrow> nat \<Rightarrow> rat" where
  "spec_cost vendor tokensIn tokensOut =
     round6 (of_nat (tokensIn + tokensOut) / 1000 * spec_rate vendor)"

section \<open>Effects of the runtime\<close>

definition Date_now :: "env \<Rightarrow> world \<Rightarrow> int \<times> world" where
  "Date_now e w = (nowOracle e (clockReads w), w\<lparr>clockReads := Suc (clockReads w)\<rparr>)"

definition Math_random :: "env \<Rightarrow> world \<Rightarrow> rat \<times> world" where
  "Math_random e w = (randomOracle e (randomDraws w), w\<lparr>randomDraws := Suc (randomDraws w)\<rparr>)"

text \<open>\<open>sleep(ms)\<close>: the world remembers how long was waited.\<close>

definition sleep :: "rat \<Rightarrow> world \<Rightarrow> world" where
  "sleep ms w = w\<lparr>sleeps := sleeps w @ [ms]\<rparr>"

text \<open>\<open>utils/ids.ts\<close>: a prefix and a UUID without its dashes.\<close>

definition generateId :: "env \<Rightarrow> string \<Rightarrow> world \<Rightarrow> string \<times> world" where
  "generateId e prefix w =
     (prefix @ uuidOracle e (uuidsDrawn w), w\<lparr>uuidsDrawn := Suc (uuidsDrawn w)\<rparr>)"

definition generateMessageId :: "env \<Rightarrow> world \<Rightarrow> string \<times> world" where
  "generateMessageId e = generateId e ''msg_''"

definition generateEventId :: "env \<Rightarrow> world \<Rightarrow> string \<times> world" where
  "generateEventId e = generateId e ''evt_''"

definition generateIdempotencyId :: "env \<Rightarrow> world \<Rightarrow> string \<times> world" where
  "generateIdempotencyId e = generateId e ''idem_''"

section \<open>Retry policy (\<open>reliability/retryPolicy.ts\<close>)\<close>

definition DEFAULT_RETRY_CONFIG :: retryConfig where
  "DEFAULT_RETRY_CONFIG = \<lparr>maxRetries = 2, initialBackoffMs = 200, timeoutMs = 2000\<rparr>"

text \<open>
  \<open>calculateBackoff\<close> draws from \<open>Math.random()\<close> only on the exponential
  branch; the draw is the next value of the oracle.
\<close>

definition calculateBackoff ::
  "env \<Rightarrow> nat \<Rightarrow> rat \<Rightarrow> rat option \<Rightarrow> world \<Rightarrow> rat \<times> world" where
  "calculateBackoff e attempt initialBackoff retryAfterMs w =
     (if retryAfterMs \<noteq> None \<and> the retryAfterMs > 0 then (the retryAfterMs, w)
      else
        (let backoff = initialBackoff * 2 ^ attempt;
             (r, w') = Math_random e w;
             jitter = backoff * (1 / 10) * (r * 2 - 1)
         in (of_int \<lfloor>backoff + jitter\<rfloor>, w')))"

text \<open>\<open>ProviderError.isRetryable\<close> and \<open>isRetryableError\<close> on a \<open>ProviderError\<close>.\<close>

definition isRetryable :: "providerError \<Rightarrow> bool" where
  "isRetryable err = (pe_statusCode err \<ge> 500 \<or> pe_statusCode err = 429)"

definition isRetryableError :: "providerError \<Rightarrow> bool" where
  "isRetryableError err = isRetryable err"

definition getRetryAfter :: "providerError \<Rightarrow> rat option" where
  "getRetryAfter err = pe_retryAfterMs err"

text \<open>Decimal digits of a number, as a template literal prints them.\<close>

function showNat :: "nat \<Rightarrow> string" where
  "showNat n =
     (if n < 10 then [''0123456789'' ! n]
      else showNat (n div 10) @ [''0123456789'' ! (n mod 10)])"
  by pat_completeness auto
termination
  by (relation "measure id") auto

declare showNat.simps [simp del]

text \<open>
  \<open>withTimeout\<close>: the promise settles first, or the timer rejects with a
  \<open>ProviderError(message, 504, 'TIMEOUT')\<close>.
\<close>

definition withTimeout :: "callOutcome \<Rightarrow> nat \<Rightarrow> string \<Rightarrow> callOutcome" where
  "withTimeout outcome ms errorMessage =
     (case outcome of
        TimesOut \<Rightarrow>
          Rejects \<lparr>pe_message = errorMessage, pe_statusCode = 504,
                   pe_errorCode = ''TIMEOUT'', pe_retryAfterMs = None\<rparr>
      | settled \<Rightarrow> settled)"

section \<open>Repositories\<close>

subsection \<open>\<open>ProviderCallEventRepo\<close>\<close>

record createProviderCallEventData =
  cpce_id :: string
  cpce_tenantId :: string
  cpce_sessionId :: string
  cpce_agentId :: string
  cpce_provider :: string
  cpce_status :: attemptStatus
  cpce_httpStatus :: "int option"
  cpce_latencyMs :: "int option"
  cpce_retries :: nat
  cpce_errorCode :: "string option"
  cpce_errorMessage :: "string option"
  cpce_requestId :: string

definition ProviderCallEventRepo_create ::
  "env \<Rightarrow> createProviderCallEventData \<Rightarrow> world \<Rightarrow> providerCallEvent \<times> world" where
  "ProviderCallEventRepo_create e d w =
     (let (t, w1) = Date_now e w;
          row = \<lparr>pce_id = cpce_id d, pce_tenantId = cpce_tenantId d,
                 pce_sessionId = cpce_sessionId d, pce_agentId = cpce_agentId d,
                 pce_provider = cpce_provider d, pce_status = cpce_status d,
                 pce_httpStatus = cpce_httpStatus d, pce_latencyMs = cpce_latencyMs d,
                 pce_retries = cpce_retries d, pce_errorCode = cpce_errorCode d,
                 pce_errorMessage = cpce_errorMessage d, pce_createdAt = t,
                 pce_requestId = cpce_requestId d\<rparr>
      in (row, w1\<lparr>provider_call_events := provider_call_events w1 @ [row]\<rparr>))"


section \<open>Retry engine and fallback (\<open>reliability/providerCaller.ts\<close>)\<close>

text \<open>
  One iteration of the loop of \<open>callProviderWithRetry\<close>, from \<open>startTime\<close> to the
  persisted attempt: the timed call, then the body of the \<open>try\<close> (a response) or
  of the \<open>catch\<close> (a \<open>ProviderError\<close>, anything else becoming
  \<open>ProviderError('Unknown error', 500, 'UNKNOWN_ERROR')\<close>), the attempt record and
  its row in \<open>provider_call_events\<close>.
\<close>

definition attemptCall ::
  "env \<Rightarrow> providerAdapter \<Rightarrow> providerRequest \<Rightarrow> retryConfig \<Rightarrow> callContext \<Rightarrow> nat
     \<Rightarrow> world \<Rightarrow> (providerError + normalizedResponse) \<times> providerCallAttempt \<times> world" where
  "attemptCall e provider request config context attempt w =
     (let (startTime, w1) = Date_now e w;
          raw = ad_call provider (vendorCalls w1) request;
          w2 = w1\<lparr>vendorCalls := Suc (vendorCalls w1)\<rparr>;
          settled = withTimeout raw (timeoutMs config)
            (''Provider '' @ ad_name provider @ '' timed out after ''
               @ showNat (timeoutMs config) @ ''ms'');
          (endTime, w3) = Date_now e w2;
          latencyMs = endTime - startTime
      in case settled of
           Resolves response \<Rightarrow>
             (let attemptRecord =
                    \<lparr>a_provider = ad_name provider, a_status = success_status,
                     a_httpStatus = Some 200, a_latencyMs = latencyMs, a_retries = attempt,
                     a_errorCode = None, a_errorMessage = None\<rparr>;
                  (evt, w4) = generateEventId e w3;
                  (row, w5) = ProviderCallEventRepo_create e
                    \<lparr>cpce_id = evt, cpce_tenantId = ctx_tenantId context,
                     cpce_sessionId = ctx_sessionId context, cpce_agentId = ctx_agentId context,
                     cpce_provider = ad_name provider, cpce_status = success_status,
                     cpce_httpStatus = Some 200, cpce_latencyMs = Some latencyMs,
                     cpce_retries = attempt, cpce_errorCode = None, cpce_errorMessage = None,
                     cpce_requestId = ctx_requestId context\<rparr> w4
              in (Inr response, attemptRecord, w5))
         | failure \<Rightarrow>
             (let providerError =
                    (case failure of
                       Rejects err \<Rightarrow> err
                     | other \<Rightarrow> \<lparr>pe_message = ''Unknown error'', pe_statusCode = 500,
                                  pe_errorCode = ''UNKNOWN_ERROR'', pe_retryAfterMs = None\<rparr>);
                  attemptRecord =
                    \<lparr>a_provider = ad_name provider, a_status = failed_status,
                     a_httpStatus = Some (pe_statusCode providerError), a_latencyMs = latencyMs,
                     a_retries = attempt, a_errorCode = Some (pe_errorCode providerError),
                     a_errorMessage = Some (pe_message providerError)\<rparr>;
                  (evt, w4) = generateEventId e w3;
                  (row, w5) = ProviderCallEventRepo_create e
                    \<lparr>cpce_id = evt, cpce_tenantId = ctx_tenantId context,
                     cpce_sessionId = ctx_sessionId context, cpce_agentId = ctx_agentId context,
                     cpce_provider = ad_name provider, cpce_status = failed_status,
                     cpce_httpStatus = Some (pe_statusCode providerError),
                     cpce_latencyMs = Some latencyMs, cpce_retries = attempt,
                     cpce_errorCode = Some (pe_errorCode providerError),
                     cpce_errorMessage = Some (pe_message providerError),
                     cpce_requestId = ctx_requestId context\<rparr> w4
              in (Inl providerError, attemptRecord, w5)))"

text \<open>
  The \<open>for\<close> loop of \<open>callProviderWithRetry\<close> with its local variables
  \<open>attempt\<close>, \<open>attempts\<close> and \<open>lastError\<close>; the last branch is the code after the
  loop.
\<close>

function retryLoop ::
  "env \<Rightarrow> providerAdapter \<Rightarrow> providerRequest \<Rightarrow> retryConfig \<Rightarrow> callContext \<Rightarrow> nat
     \<Rightarrow> providerCallAttempt list \<Rightarrow> providerError option \<Rightarrow> world
     \<Rightarrow> providerCallResult \<times> world" where
  "retryLoop e provider request config context attempt attempts lastError w =
     (if attempt \<le> maxRetries config then
        (case attemptCall e provider request config context attempt w of
           (Inr response, attemptRecord, w1) \<Rightarrow>
             (\<lparr>pr_success = True, pr_response = Some response, pr_error = None,
               pr_attempts = attempts @ [attemptRecord], pr_providerUsed = ad_name provider,
               pr_fallbackUsed = False\<rparr>, w1)
         | (Inl providerError, attemptRecord, w1) \<Rightarrow>
             (if attempt < maxRetries config \<and> isRetryableError providerError then
                (let retryAfterMs = getRetryAfter providerError;
                     (backoffMs, w2) =
                        calculateBackoff e attempt (initialBackoffMs config) retryAfterMs w1
                 in retryLoop e provider request config context (Suc attempt)
                      (attempts @ [attemptRecord]) (Some providerError) (sleep backoffMs w2))
              else
                (\<lparr>pr_success = False, pr_response = None, pr_error = Some providerError,
                  pr_attempts = attempts @ [attemptRecord], pr_providerUsed = ad_name provider,
                  pr_fallbackUsed = False\<rparr>, w1)))
      else
        (\<lparr>pr_success = False, pr_response = None, pr_error = lastError,
          pr_attempts = attempts, pr_providerUsed = ad_name provider,
          pr_fallbackUsed = False\<rparr>, w))"
  by pat_completeness auto
termination
  by (relation "measure (\<lambda>(e, provider, request, config, context, attempt, attempts, lastError, w).
        Suc (maxRetries config) - attempt)") auto

declare retryLoop.simps [simp del]

definition callProviderWithRetry ::
  "env \<Rightarrow> providerAdapter \<Rightarrow> providerRequest \<Rightarrow> retryConfig \<Rightarrow> callContext \<Rightarrow> world
     \<Rightarrow> providerCallResult \<times> world" where
  "callProviderWithRetry e provider request config context w =
     retryLoop e provider request config context 0 [] None w"

definition callProviderWithFallback ::
  "env \<Rightarrow> providerAdapter \<Rightarrow> providerAdapter option \<Rightarrow> providerRequest \<Rightarrow> retryConfig
     \<Rightarrow> callContext \<Rightarrow> world \<Rightarrow> providerCallResult \<times> world" where
  "callProviderWithFallback e primaryProvider fallbackProvider request config context w =
     (let (primaryResult, w1) = callProviderWithRetry e primaryProvider request config context w
      in if pr_success primaryResult then (primaryResult, w1)
         else
           (case fallbackProvider of
              Some fallback \<Rightarrow>
                (let (fallbackResult, w2) =
                       callProviderWithRetry e fallback request config context w1
                 in (fallbackResult
                       \<lparr>pr_attempts := pr_attempts primaryResult @ pr_attempts fallbackResult,
                        pr_fallbackUsed := True\<rparr>, w2))
            | None \<Rightarrow> (primaryResult, w1)))"


section \<open>Request fingerprint (\<open>utils/hash.ts\<close>)\<close>

subsection \<open>SHA-256 (\<open>createHash('sha256')\<close>), 32-bit words as integers modulo \<open>2^32\<close>\<close>

definition rotr :: "nat \<Rightarrow> int \<Rightarrow> int" where
  "rotr n x = or (drop_bit n x) (push_bit (32 - n) x mod 4294967296)"

definition sha256_K :: "int list" where
  "sha256_K = [1116352408, 1899447441, 3049323471, 3921009573, 961987163, 1508970993,
     2453635748, 2870763221, 3624381080, 310598401, 607225278, 1426881987, 1925078388,
     2162078206, 2614888103, 3248222580, 3835390401, 4022224774, 264347078, 604807628,
     770255983, 1249150122, 1555081692, 1996064986, 2554220882, 2821834349, 2952996808,
     3210313671, 3336571891, 3584528711, 113926993, 338241895, 666307205, 773529912,
     1294757372, 1396182291, 1695183700, 1986661051, 2177026350, 2456956037, 2730485921,
     2820302411, 3259730800, 3345764771, 3516065817, 3600352804, 4094571909, 275423344,
     430227734, 506948616, 659060556, 883997877, 958139571, 1322822218, 1537002063,
     1747873779, 1955562222, 2024104815, 2227730452, 2361852424, 2428436474, 2756734187,
     3204031479, 3329325298]"

definition sha256_H0 :: "int list" where
  "sha256_H0 = [1779033703, 3144134277, 1013904242, 2773480762, 1359893119, 2600822924,
     528734635, 1541459225]"

definition sigma0 :: "int \<Rightarrow> int" where
  "sigma0 x = xor (xor (rotr 7 x) (rotr 18 x)) (drop_bit 3 x)"

definition sigma1 :: "int \<Rightarrow> int" where
  "sigma1 x = xor (xor (rotr 17 x) (rotr 19 x)) (drop_bit 10 x)"

definition Sigma0 :: "int \<Rightarrow> int" where
  "Sigma0 x = xor (xor (rotr 2 x) (rotr 13 x)) (rotr 22 x)"

definition Sigma1 :: "int \<Rightarrow> int" where
  "Sigma1 x = xor (xor (rotr 6 x) (rotr 11 x)) (rotr 25 x)"

definition Ch :: "int \<Rightarrow> int \<Rightarrow> int \<Rightarrow> int" where
  "Ch x y z = xor (and x y) (and (4294967295 - x) z)"

definition Maj :: "int \<Rightarrow> int \<Rightarrow> int \<Rightarrow> int" where
  "Maj x y z = xor (xor (and x y) (and x z)) (and y z)"

text \<open>The message as bytes; its length and its length modulo 64.\<close>

fun byteCount :: "int list \<Rightarrow> int" where
  "byteCount [] = 0"
| "byteCount (x # xs) = 1 + byteCount xs"

fun pos64 :: "int list \<Rightarrow> nat" where
  "pos64 [] = 0"
| "pos64 (x # xs) = Suc (pos64 xs) mod 64"

primrec zeros :: "nat \<Rightarrow> int list" where
  "zeros 0 = []"
| "zeros (Suc n) = 0 # zeros n"

text \<open>
  Padding: \<open>0x80\<close>, zeros up to 56 modulo 64, then the bit length as eight
  big-endian bytes (for a message below \<open>2^29\<close> bytes the upper four are zero).
\<close>

definition sha256_pad :: "int list \<Rightarrow> int list" where
  "sha256_pad m = m @ [128] @ zeros ((119 - pos64 m) mod 64)
     @ [0, 0, 0, 0, drop_bit 21 (byteCount m) mod 256, drop_bit 13 (byteCount m) mod 256,
        drop_bit 5 (byteCount m) mod 256, push_bit 3 (byteCount m) mod 256]"

fun be_words :: "int list \<Rightarrow> int list" where
  "be_words (b3 # b2 # b1 # b0 # rest) =
     (((b3 * 256 + b2) * 256 + b1) * 256 + b0) # be_words rest"
| "be_words _ = []"

fun shuffle :: "int \<Rightarrow> int \<Rightarrow> int list \<Rightarrow> int list" where
  "shuffle t1 t2 [a, b, c, d, e, f, g, h] =
     [(t1 + t2) mod 4294967296, a, b, c, (d + t1) mod 4294967296, e, f, g]"
| "shuffle t1 t2 st = st"

fun round256 :: "int \<Rightarrow> int \<Rightarrow> int list \<Rightarrow> int list" where
  "round256 k x [a, b, c, d, e, f, g, h] =
     shuffle (h + Sigma1 e + Ch e f g + k + x) (Sigma0 a + Maj a b c) [a, b, c, d, e, f, g, h]"
| "round256 k x st = st"

text \<open>The message schedule as a sliding window over the next sixteen words.\<close>

definition slide :: "int list \<Rightarrow> int list" where
  "slide win =
     tl win @ [(sigma1 (win ! 14) + win ! 9 + sigma0 (win ! 1) + win ! 0) mod 4294967296]"

fun rounds :: "int list \<Rightarrow> int list \<Rightarrow> int list \<Rightarrow> int list" where
  "rounds [] win st = st"
| "rounds (k # ks) win st = rounds ks (slide win) (round256 k (hd win) st)"

definition compress :: "int list \<Rightarrow> int list \<Rightarrow> int list" where
  "compress h block = map2 (\<lambda>x y. (x + y) mod 4294967296) h (rounds sha256_K block h)"

function blocks :: "int list \<Rightarrow> int list \<Rightarrow> int list" where
  "blocks h ws =
     (if length ws < 16 then h else blocks (compress h (take 16 ws)) (drop 16 ws))"
  by pat_completeness auto
termination
  by (relation "measure (\<lambda>(h, ws). length ws)") auto

declare blocks.simps [simp del]

definition hex32 :: "int \<Rightarrow> string" where
  "hex32 x = map (\<lambda>i. ''0123456789abcdef'' ! nat (drop_bit i x mod 16))
               [28, 24, 20, 16, 12, 8, 4, 0]"

definition sha256_hex :: "string \<Rightarrow> string" where
  "sha256_hex s =
     concat (map hex32 (blocks sha256_H0 (be_words (sha256_pad (map of_char s)))))"

subsection \<open>\<open>JSON.stringify\<close> of the hashed object and \<open>Date.prototype.toISOString\<close>\<close>

definition JSON_escape :: "char \<Rightarrow> string" where
  "JSON_escape c =
     (if c = CHR 0x22 then [CHR 0x5C, CHR 0x22]
      else if c = CHR 0x5C then [CHR 0x5C, CHR 0x5C]
      else if c = CHR 0x08 then [CHR 0x5C, CHR ''b'']
      else if c = CHR 0x09 then [CHR 0x5C, CHR ''t'']
      else if c = CHR 0x0A then [CHR 0x5C, CHR ''n'']
      else if c = CHR 0x0C then [CHR 0x5C, CHR ''f'']
      else if c = CHR 0x0D then [CHR 0x5C, CHR ''r'']
      else if (of_char c :: nat) < 32 then
        [CHR 0x5C, CHR ''u'', CHR ''0'', CHR ''0'',
         ''0123456789abcdef'' ! (of_char c div 16), ''0123456789abcdef'' ! (of_char c mod 16)]
      else [c])"

definition JSON_quote :: "string \<Rightarrow> string" where
  "JSON_quote s = [CHR 0x22] @ concat (map JSON_escape s) @ [CHR 0x22]"

text \<open>Zero-padded decimal digits of a non-negative integer, most significant first.\<close>

fun digitsOf :: "nat \<Rightarrow> int \<Rightarrow> string" where
  "digitsOf 0 n = []"
| "digitsOf (Suc k) n = digitsOf k (n div 10) @ [''0123456789'' ! nat (n mod 10)]"

text \<open>
  The civil date of a day number (days since 1970-01-01, proleptic Gregorian
  calendar) and the ISO string \<open>YYYY-MM-DDTHH:mm:ss.sssZ\<close> of a clock reading whose
  year lies in \<open>0 .. 9999\<close>.
\<close>

definition civilFromDays :: "int \<Rightarrow> int \<times> int \<times> int" where
  "civilFromDays z =
     (let z' = z + 719468;
          era = z' div 146097;
          doe = z' mod 146097;
          yoe = (doe - doe div 1460 + doe div 36524 - doe div 146096) div 365;
          y = yoe + era * 400;
          doy = doe - (365 * yoe + yoe div 4 - yoe div 100);
          mp = (5 * doy + 2) div 153;
          d = doy - (153 * mp + 2) div 5 + 1;
          m = (if mp < 10 then mp + 3 else mp - 9)
      in (if m \<le> 2 then y + 1 else y, m, d))"

definition toISOString :: "int \<Rightarrow> string" where
  "toISOString ms =
     (let (y, m, d) = civilFromDays (ms div 86400000);
          r = ms mod 86400000
      in digitsOf 4 y @ ''-'' @ digitsOf 2 m @ ''-'' @ digitsOf 2 d @ ''T''
         @ digitsOf 2 (r div 3600000) @ '':'' @ digitsOf 2 (r div 60000 mod 60) @ '':''
         @ digitsOf 2 (r div 1000 mod 60) @ ''.'' @ digitsOf 3 (r mod 1000) @ ''Z'')"

subsection \<open>\<open>computeRequestHash\<close>\<close>

record requestHashData =
  rh_tenantId :: string
  rh_sessionId :: string
  rh_content :: string
  rh_timestamp :: "string option"

definition requestHashPayload :: "string \<Rightarrow> string \<Rightarrow> string \<Rightarrow> string \<Rightarrow> string" where
  "requestHashPayload tenantId sessionId content timestamp =
     ''{'' @ JSON_quote ''tenantId'' @ '':'' @ JSON_quote tenantId @ '',''
       @ JSON_quote ''sessionId'' @ '':'' @ JSON_quote sessionId @ '',''
       @ JSON_quote ''content'' @ '':'' @ JSON_quote content @ '',''
       @ JSON_quote ''timestamp'' @ '':'' @ JSON_quote timestamp @ ''}''"

text \<open>
  \<open>data.timestamp || new Date().toISOString()\<close>: an absent or empty timestamp
  reads the clock.
\<close>

definition computeRequestHash :: "env \<Rightarrow> requestHashData \<Rightarrow> world \<Rightarrow> string \<times> world" where
  "computeRequestHash e d w =
     (let (timestamp, w1) =
            (if rh_timestamp d \<noteq> None \<and> the (rh_timestamp d) \<noteq> [] then (the (rh_timestamp d), w)
             else (let (t, w') = Date_now e w in (toISOString t, w')));
          payload = requestHashPayload (rh_tenantId d) (rh_sessionId d) (rh_content d) timestamp
      in (sha256_hex payload, w1))"


section \<open>Repositories, continued\<close>

subsection \<open>\<open>IdempotencyRepo\<close>\<close>

record createIdempotencyRecordData =
  cid_id :: string
  cid_tenantId :: string
  cid_scope :: string
  cid_idempotencyKey :: string
  cid_sessionId :: "string option"
  cid_requestHash :: string

definition IdempotencyRepo_lookup ::
  "world \<Rightarrow> string \<Rightarrow> string \<Rightarrow> string \<Rightarrow> idempotencyRecord option" where
  "IdempotencyRepo_lookup w tenantId scope idempotencyKey =
     find (\<lambda>r. idem_tenantId r = tenantId \<and> idem_scope r = scope
                \<and> idem_idempotencyKey r = idempotencyKey) (idempotency_records w)"

text \<open>
  \<open>prisma.idempotencyRecord.create\<close>: the unique index on
  \<open>(tenantId, scope, idempotencyKey)\<close> rejects a second row with error \<open>P2002\<close>.
\<close>

definition prisma_idempotencyRecord_create ::
  "env \<Rightarrow> createIdempotencyRecordData \<Rightarrow> world \<Rightarrow> (thrown + idempotencyRecord) \<times> world" where
  "prisma_idempotencyRecord_create e d w =
     (case IdempotencyRepo_lookup w (cid_tenantId d) (cid_scope d) (cid_idempotencyKey d) of
        Some existing \<Rightarrow> (Inl (PrismaError ''P2002''), w)
      | None \<Rightarrow>
          (let (t, w1) = Date_now e w;
               row = \<lparr>idem_id = cid_id d, idem_tenantId = cid_tenantId d,
                      idem_scope = cid_scope d, idem_idempotencyKey = cid_idempotencyKey d,
                      idem_sessionId = cid_sessionId d, idem_requestHash = cid_requestHash d,
                      idem_responseJson = None, idem_createdAt = t\<rparr>
           in (Inr row, w1\<lparr>idempotency_records := idempotency_records w1 @ [row]\<rparr>)))"

definition IdempotencyRepo_create ::
  "env \<Rightarrow> createIdempotencyRecordData \<Rightarrow> world \<Rightarrow> (thrown + idempotencyRecord) \<times> world" where
  "IdempotencyRepo_create e d w =
     (case prisma_idempotencyRecord_create e d w of
        (Inr row, w1) \<Rightarrow> (Inr row, w1)
      | (Inl err, w1) \<Rightarrow>
          (if err = PrismaError ''P2002'' then
             (case IdempotencyRepo_lookup w1 (cid_tenantId d) (cid_scope d)
                     (cid_idempotencyKey d) of
                Some existing \<Rightarrow> (Inr existing, w1)
              | None \<Rightarrow> (Inl err, w1))
           else (Inl err, w1)))"

text \<open>\<open>prisma.idempotencyRecord.update\<close> throws \<open>P2025\<close> when no row matches.\<close>

definition IdempotencyRepo_updateResponse ::
  "string \<Rightarrow> string \<Rightarrow> string \<Rightarrow> string \<Rightarrow> world \<Rightarrow> (thrown + idempotencyRecord) \<times> world" where
  "IdempotencyRepo_updateResponse tenantId scope idempotencyKey responseJson w =
     (case IdempotencyRepo_lookup w tenantId scope idempotencyKey of
        None \<Rightarrow> (Inl (PrismaError ''P2025''), w)
      | Some row \<Rightarrow>
          (Inr (row\<lparr>idem_responseJson := Some responseJson\<rparr>),
           w\<lparr>idempotency_records :=
               map (\<lambda>r. if idem_tenantId r = tenantId \<and> idem_scope r = scope
                            \<and> idem_idempotencyKey r = idempotencyKey
                         then r\<lparr>idem_responseJson := Some responseJson\<rparr> else r)
                   (idempotency_records w)\<rparr>))"

subsection \<open>\<open>SessionRepo\<close>, \<open>AgentRepo\<close>\<close>

definition SessionRepo_findById :: "world \<Rightarrow> string \<Rightarrow> string \<Rightarrow> session option" where
  "SessionRepo_findById w tenantId sessionId =
     (case sessions w sessionId of
        Some s \<Rightarrow> if ses_tenantId s = tenantId then Some s else None
      | None \<Rightarrow> None)"

text \<open>
  \<open>updateLastActivity\<close> selects by \<open>id\<close> alone: \<open>where: { id: sessionId }\<close>,
  \<open>data: { lastActivityAt: new Date() }\<close>; no row, error \<open>P2025\<close>.
\<close>

definition SessionRepo_updateLastActivity ::
  "env \<Rightarrow> string \<Rightarrow> world \<Rightarrow> (thrown + session) \<times> world" where
  "SessionRepo_updateLastActivity e sessionId w =
     (let (t, w1) = Date_now e w
      in case sessions w1 sessionId of
           None \<Rightarrow> (Inl (PrismaError ''P2025''), w1)
         | Some s \<Rightarrow>
             (Inr (s\<lparr>ses_lastActivityAt := t\<rparr>),
              w1\<lparr>sessions := (sessions w1)(sessionId \<mapsto> s\<lparr>ses_lastActivityAt := t\<rparr>)\<rparr>))"

definition AgentRepo_findById :: "world \<Rightarrow> string \<Rightarrow> string \<Rightarrow> agent option" where
  "AgentRepo_findById w tenantId agentId =
     (case agents w agentId of
        Some a \<Rightarrow> if agt_tenantId a = tenantId then Some a else None
      | None \<Rightarrow> None)"

subsection \<open>\<open>MessageRepo\<close>, \<open>UsageEventRepo\<close>\<close>

record createMessageData =
  cmd_id :: string
  cmd_tenantId :: string
  cmd_sessionId :: string
  cmd_role :: string
  cmd_content :: string

definition MessageRepo_create :: "env \<Rightarrow> createMessageData \<Rightarrow> world \<Rightarrow> message \<times> world" where
  "MessageRepo_create e d w =
     (let (t, w1) = Date_now e w;
          row = \<lparr>msg_id = cmd_id d, msg_tenantId = cmd_tenantId d,
                 msg_sessionId = cmd_sessionId d, msg_role = cmd_role d,
                 msg_content = cmd_content d, msg_createdAt = t\<rparr>
      in (row, w1\<lparr>messages := messages w1 @ [row]\<rparr>))"

text \<open>\<open>orderBy: { createdAt: 'asc' }\<close>, rows of equal time in insertion order.\<close>

definition MessageRepo_listBySession :: "world \<Rightarrow> string \<Rightarrow> string \<Rightarrow> message list" where
  "MessageRepo_listBySession w tenantId sessionId =
     sort_key msg_createdAt
       (filter (\<lambda>m. msg_tenantId m = tenantId \<and> msg_sessionId m = sessionId) (messages w))"

record createUsageEventData =
  cue_id :: string
  cue_tenantId :: string
  cue_sessionId :: string
  cue_agentId :: string
  cue_provider :: string
  cue_tokensIn :: nat
  cue_tokensOut :: nat
  cue_costUsd :: rat
  cue_requestId :: string

definition UsageEventRepo_create ::
  "env \<Rightarrow> createUsageEventData \<Rightarrow> world \<Rightarrow> usageEvent \<times> world" where
  "UsageEventRepo_create e d w =
     (let (t, w1) = Date_now e w;
          row = \<lparr>ue_id = cue_id d, ue_tenantId = cue_tenantId d,
                 ue_sessionId = cue_sessionId d, ue_agentId = cue_agentId d,
                 ue_provider = cue_provider d, ue_tokensIn = cue_tokensIn d,
                 ue_tokensOut = cue_tokensOut d, ue_costUsd = cue_costUsd d,
                 ue_createdAt = t, ue_requestId = cue_requestId d\<rparr>
      in (row, w1\<lparr>usage_events := usage_events w1 @ [row]\<rparr>))"

section \<open>The conversation pipeline (\<open>services/ConversationService.ts\<close>)\<close>

text \<open>The adapters of the two vendors answer as the oracles of the environment say.\<close>

definition VendorAAdapter :: "env \<Rightarrow> providerAdapter" where
  "VendorAAdapter e = \<lparr>ad_name = ''vendorA'', ad_call = vendorAOracle e\<rparr>"

definition VendorBAdapter :: "env \<Rightarrow> providerAdapter" where
  "VendorBAdapter e = \<lparr>ad_name = ''vendorB'', ad_call = vendorBOracle e\<rparr>"

definition getProviderAdapter :: "env \<Rightarrow> string \<Rightarrow> thrown + providerAdapter" where
  "getProviderAdapter e providerName =
     (if providerName = ''vendorA'' then Inr (VendorAAdapter e)
      else if providerName = ''vendorB'' then Inr (VendorBAdapter e)
      else Inl (Error (''Unknown provider: '' @ providerName)))"

text \<open>
  The replay of a stored response: \<open>JSON.parse\<close>, then
  \<open>metadata.idempotency.replayed = true\<close>. A stored text that does not parse
  throws.
\<close>

definition markReplayed :: "sendMessageResponse \<Rightarrow> sendMessageResponse" where
  "markReplayed r =
     r\<lparr>smr_metadata := (smr_metadata r)
          \<lparr>md_idempotency := (md_idempotency (smr_metadata r))\<lparr>ri_replayed := True\<rparr>\<rparr>\<rparr>"

definition replayStored :: "env \<Rightarrow> string \<Rightarrow> thrown + sendMessageResponse" where
  "replayStored e responseJson =
     (case parseResponseOracle e responseJson of
        None \<Rightarrow> Inl (Error ''SyntaxError'')
      | Some storedResponse \<Rightarrow> Inr (markReplayed storedResponse))"

text \<open>Truthiness of \<open>record.responseJson\<close>: neither \<open>null\<close> nor the empty string.\<close>

definition populated :: "idempotencyRecord \<Rightarrow> bool" where
  "populated r = (idem_responseJson r \<noteq> None \<and> the (idem_responseJson r) \<noteq> [])"

text \<open>
  \<open>sendMessage\<close> in three consecutive parts, each ending at an \<open>await\<close>. A part
  yields \<open>Inl (Inl err)\<close> when it throws, \<open>Inl (Inr response)\<close> when it returns
  the response of the whole call, and \<open>Inr x\<close> when the call goes on with \<open>x\<close>.

  Part one, lines 89 to 136: the key check, STEP 1 (lookup and replay) and STEP 2
  (fingerprint, placeholder, replay of a record that a concurrent request
  completed).
\<close>

definition idempotencyGate ::
  "env \<Rightarrow> string \<Rightarrow> string \<Rightarrow> string option \<Rightarrow> string \<Rightarrow> string \<Rightarrow> world
     \<Rightarrow> ((thrown + sendMessageResponse) + string) \<times> world" where
  "idempotencyGate e tenantId sessionId idempotencyKey userMessageContent requestId w =
     (if idempotencyKey = None \<or> the idempotencyKey = [] then
        (Inl (Inl (IDEMPOTENCY_KEY_REQUIRED requestId)), w)
      else
        (let key = the idempotencyKey;
             existingRecord = IdempotencyRepo_lookup w tenantId ''send_message'' key
         in if existingRecord \<noteq> None \<and> populated (the existingRecord) then
              (Inl (replayStored e (the (idem_responseJson (the existingRecord)))), w)
            else
              (let (requestHash, w1) = computeRequestHash e
                     \<lparr>rh_tenantId = tenantId, rh_sessionId = sessionId,
                      rh_content = userMessageContent, rh_timestamp = None\<rparr> w;
                   (newId, w2) = generateIdempotencyId e w1;
                   (created, w3) = IdempotencyRepo_create e
                     \<lparr>cid_id = newId, cid_tenantId = tenantId, cid_scope = ''send_message'',
                      cid_idempotencyKey = key, cid_sessionId = Some sessionId,
                      cid_requestHash = requestHash\<rparr> w2
               in case created of
                    Inl err \<Rightarrow> (Inl (Inl err), w3)
                  | Inr idempotencyRecord \<Rightarrow>
                      (if populated idempotencyRecord then
                         (Inl (replayStored e (the (idem_responseJson idempotencyRecord))), w3)
                       else (Inr key, w3)))))"

text \<open>
  Part two, lines 138 to 177: STEP 3 (session and agent), STEP 4 (the user
  message, then the session's activity time), STEP 5 (history) and STEP 6
  (adapters). It hands over the agent's id, the agent, the request and the two
  adapters.
\<close>

record turn =
  turn_agentId :: string
  turn_agent :: agent
  turn_request :: providerRequest
  turn_primary :: providerAdapter
  turn_fallback :: "providerAdapter option"

definition persistUserTurn ::
  "env \<Rightarrow> string \<Rightarrow> string \<Rightarrow> string \<Rightarrow> string \<Rightarrow> world
     \<Rightarrow> ((thrown + sendMessageResponse) + turn) \<times> world" where
  "persistUserTurn e tenantId sessionId userMessageContent requestId w =
     (case SessionRepo_findById w tenantId sessionId of
        None \<Rightarrow> (Inl (Inl (SESSION_NOT_FOUND sessionId requestId)), w)
      | Some session \<Rightarrow>
     (case AgentRepo_findById w tenantId (ses_agentId session) of
        None \<Rightarrow> (Inl (Inl (AGENT_NOT_FOUND (ses_agentId session) requestId)), w)
      | Some agent \<Rightarrow>
     (let (userMessageId, w1) = generateMessageId e w;
          (userMessage, w2) = MessageRepo_create e
            \<lparr>cmd_id = userMessageId, cmd_tenantId = tenantId, cmd_sessionId = sessionId,
             cmd_role = ''user'', cmd_content = userMessageContent\<rparr> w1;
          (touched, w3) = SessionRepo_updateLastActivity e sessionId w2
      in case touched of
           Inl err \<Rightarrow> (Inl (Inl err), w3)
         | Inr updated \<Rightarrow>
     (let previousMessages = MessageRepo_listBySession w3 tenantId sessionId
      in case parseToolsOracle e (agt_enabledToolsJson agent) of
           None \<Rightarrow> (Inl (Inl (Error ''SyntaxError'')), w3)
         | Some tools \<Rightarrow>
     (let conversationHistory =
            \<lparr>req_systemPrompt = agt_systemPrompt agent,
             req_messages = map (\<lambda>m. \<lparr>cm_role = msg_role m, cm_content = msg_content m\<rparr>)
                               previousMessages,
             req_enabledTools = tools\<rparr>
      in case getProviderAdapter e (agt_primaryProvider agent) of
           Inl err \<Rightarrow> (Inl (Inl err), w3)
         | Inr primaryProvider \<Rightarrow>
     (case (if agt_fallbackProvider agent \<noteq> None \<and> the (agt_fallbackProvider agent) \<noteq> []
            then map_sum id Some (getProviderAdapter e (the (agt_fallbackProvider agent)))
            else Inr None) of
        Inl err \<Rightarrow> (Inl (Inl err), w3)
      | Inr fallbackProvider \<Rightarrow>
          (Inr \<lparr>turn_agentId = ses_agentId session, turn_agent = agent,
                turn_request = conversationHistory, turn_primary = primaryProvider,
                turn_fallback = fallbackProvider\<rparr>, w3)))))))"

text \<open>
  Part three, lines 179 to 283: STEP 7 (the vendors), STEP 8 (assistant message),
  STEP 9 (cost and usage event), STEP 10 (envelope) and STEP 11 (completion of the
  idempotency record).
\<close>

definition deliver ::
  "env \<Rightarrow> string \<Rightarrow> string \<Rightarrow> string \<Rightarrow> string \<Rightarrow> turn \<Rightarrow> world
     \<Rightarrow> (thrown + sendMessageResponse) \<times> world" where
  "deliver e tenantId sessionId idempotencyKey requestId t w =
     (let agent = turn_agent t;
          (providerResult, w1) = callProviderWithFallback e (turn_primary t) (turn_fallback t)
             (turn_request t) DEFAULT_RETRY_CONFIG
             \<lparr>ctx_tenantId = tenantId, ctx_sessionId = sessionId,
              ctx_agentId = turn_agentId t, ctx_requestId = requestId\<rparr> w
      in if \<not> pr_success providerResult \<or> pr_response providerResult = None then
           (Inl (ALL_PROVIDERS_FAILED (agt_primaryProvider agent) (agt_fallbackProvider agent)
                   (pr_attempts providerResult) requestId), w1)
         else
     (let response = the (pr_response providerResult);
          (assistantMessageId, w2) = generateMessageId e w1;
          (assistantMessage, w3) = MessageRepo_create e
            \<lparr>cmd_id = assistantMessageId, cmd_tenantId = tenantId, cmd_sessionId = sessionId,
             cmd_role = ''assistant'', cmd_content = nr_text response\<rparr> w2
      in case calculateCost (pr_providerUsed providerResult)
                (of_nat (nr_tokensIn response)) (of_nat (nr_tokensOut response)) of
           Inl err \<Rightarrow> (Inl err, w3)
         | Inr cost \<Rightarrow>
     (let (usageId, w4) = generateEventId e w3;
          (usage, w5) = UsageEventRepo_create e
            \<lparr>cue_id = usageId, cue_tenantId = tenantId, cue_sessionId = sessionId,
             cue_agentId = turn_agentId t, cue_provider = pr_providerUsed providerResult,
             cue_tokensIn = nr_tokensIn response, cue_tokensOut = nr_tokensOut response,
             cue_costUsd = cost, cue_requestId = requestId\<rparr> w4;
          sendMessageResponse =
            \<lparr>smr_message =
               \<lparr>rm_id = msg_id assistantMessage, rm_sessionId = msg_sessionId assistantMessage,
                rm_role = msg_role assistantMessage, rm_content = msg_content assistantMessage,
                rm_createdAt = msg_createdAt assistantMessage\<rparr>,
             smr_metadata =
               \<lparr>md_agentId = turn_agentId t,
                md_providerUsed = pr_providerUsed providerResult,
                md_primaryAttempted = agt_primaryProvider agent,
                md_fallbackAttempted = agt_fallbackProvider agent,
                md_fallbackUsed = pr_fallbackUsed providerResult,
                md_attempts =
                  map (\<lambda>a. \<lparr>ra_provider = a_provider a, ra_status = a_status a,
                              ra_httpStatus = a_httpStatus a, ra_latencyMs = a_latencyMs a,
                              ra_retries = a_retries a, ra_errorCode = a_errorCode a\<rparr>)
                      (pr_attempts providerResult),
                md_usage =
                  \<lparr>ru_tokensIn = nr_tokensIn response, ru_tokensOut = nr_tokensOut response,
                   ru_costUsd = cost,
                   ru_usdPer1kTokens =
                     (if pr_providerUsed providerResult = ''vendorA'' then 2 / 1000
                      else 3 / 1000)\<rparr>,
                md_idempotency = \<lparr>ri_key = idempotencyKey, ri_replayed = False\<rparr>,
                md_requestId = requestId\<rparr>\<rparr>;
          (completed, w6) = IdempotencyRepo_updateResponse tenantId ''send_message''
             idempotencyKey (stringifyOracle e sendMessageResponse) w5
      in case completed of
           Inl err \<Rightarrow> (Inl err, w6)
         | Inr row \<Rightarrow> (Inr sendMessageResponse, w6))))"

definition sendMessage ::
  "env \<Rightarrow> string \<Rightarrow> string \<Rightarrow> string option \<Rightarrow> string \<Rightarrow> string \<Rightarrow> world
     \<Rightarrow> (thrown + sendMessageResponse) \<times> world" where
  "sendMessage e tenantId sessionId idempotencyKey userMessageContent requestId w =
     (case idempotencyGate e tenantId sessionId idempotencyKey userMessageContent requestId w of
        (Inl finished, w1) \<Rightarrow> (finished, w1)
      | (Inr key, w1) \<Rightarrow>
          (case persistUserTurn e tenantId sessionId userMessageContent requestId w1 of
             (Inl finished, w2) \<Rightarrow> (finished, w2)
           | (Inr t, w2) \<Rightarrow> deliver e tenantId sessionId key requestId t w2))"


section \<open>Concrete environments and worlds\<close>

text \<open>
  A clock that advances one millisecond per reading from 2023-11-14T22:13:20Z, ids
  numbered in the order they are drawn, a jitter draw of one half, vendors that
  answer every call with the same response, and a codec of the envelope that knows
  a single stored text.
\<close>

definition demoResponse :: normalizedResponse where
  "demoResponse = \<lparr>nr_text = ''Hello!'', nr_tokensIn = 100, nr_tokensOut = 200, nr_latencyMs = 5\<rparr>"

definition serverError :: providerError where
  "serverError = \<lparr>pe_message = ''Service unavailable'', pe_statusCode = 503,
                   pe_errorCode = ''SERVER_ERROR'', pe_retryAfterMs = None\<rparr>"

definition clientError :: providerError where
  "clientError = \<lparr>pe_message = ''Bad request'', pe_statusCode = 400,
                   pe_errorCode = ''SERVER_ERROR'', pe_retryAfterMs = None\<rparr>"

definition demoEnvelope :: sendMessageResponse where
  "demoEnvelope =
     \<lparr>smr_message = \<lparr>rm_id = ''msg_7'', rm_sessionId = ''ses_1'', rm_role = ''assistant'',
                      rm_content = ''Hello!'', rm_createdAt = 1700000000000\<rparr>,
      smr_metadata =
        \<lparr>md_agentId = ''agt_1'', md_providerUsed = ''vendorA'', md_primaryAttempted = ''vendorA'',
         md_fallbackAttempted = None, md_fallbackUsed = False,
         md_attempts = [\<lparr>ra_provider = ''vendorA'', ra_status = success_status,
                         ra_httpStatus = Some 200, ra_latencyMs = 1, ra_retries = 0,
                         ra_errorCode = None\<rparr>],
         md_usage = \<lparr>ru_tokensIn = 100, ru_tokensOut = 200, ru_costUsd = 6 / 10000,
                      ru_usdPer1kTokens = 2 / 1000\<rparr>,
         md_idempotency = \<lparr>ri_key = ''K1'', ri_replayed = False\<rparr>,
         md_requestId = ''req_0''\<rparr>\<rparr>"

definition demoEnv :: env where
  "demoEnv =
     \<lparr>nowOracle = (\<lambda>n. 1700000000000 + int n),
      uuidOracle = showNat,
      randomOracle = (\<lambda>n. 1 / 2),
      vendorAOracle = (\<lambda>k request. Resolves demoResponse),
      vendorBOracle = (\<lambda>k request. Resolves demoResponse),
      parseToolsOracle = (\<lambda>s. if s = ''[]'' then Some [] else None),
      stringifyOracle = (\<lambda>r. ''{envelope}''),
      parseResponseOracle = (\<lambda>s. if s = ''{envelope}'' then Some demoEnvelope else None)\<rparr>"

text \<open>The same environment with vendor A answering 503 to every call.\<close>

definition outageEnv :: env where
  "outageEnv = demoEnv\<lparr>vendorAOracle := (\<lambda>k request. Rejects serverError)\<rparr>"

text \<open>Vendor A answers 503 twice (calls 0 and 1) and then succeeds.\<close>

definition flakyEnv :: env where
  "flakyEnv = demoEnv\<lparr>vendorAOracle :=
     (\<lambda>k request. if k < 2 then Rejects serverError else Resolves demoResponse)\<rparr>"

text \<open>Vendor A answers 400 to every call.\<close>

definition rejectingEnv :: env where
  "rejectingEnv = demoEnv\<lparr>vendorAOracle := (\<lambda>k request. Rejects clientError)\<rparr>"

text \<open>
  Two tenants. Tenant \<open>tnt_1\<close> owns agent \<open>agt_1\<close> (vendor A, no fallback) and
  session \<open>ses_1\<close>; tenant \<open>tnt_2\<close> owns agent \<open>agt_2\<close> (vendor A, fallback B) and
  session \<open>ses_2\<close>.
\<close>

definition demoWorld :: world where
  "demoWorld =
     \<lparr>idempotency_records = [],
      sessions =
        [''ses_1'' \<mapsto> \<lparr>ses_tenantId = ''tnt_1'', ses_agentId = ''agt_1'', ses_customerId = ''c1'',
                        ses_metadataJson = ''{}'', ses_status = ''active'',
                        ses_createdAt = 1600000000000, ses_lastActivityAt = 1600000000000\<rparr>,
         ''ses_2'' \<mapsto> \<lparr>ses_tenantId = ''tnt_2'', ses_agentId = ''agt_2'', ses_customerId = ''c2'',
                        ses_metadataJson = ''{}'', ses_status = ''active'',
                        ses_createdAt = 1600000000000, ses_lastActivityAt = 1600000000000\<rparr>],
      agents =
        [''agt_1'' \<mapsto> \<lparr>agt_tenantId = ''tnt_1'', agt_name = ''Alpha'',
                        agt_primaryProvider = ''vendorA'', agt_fallbackProvider = None,
                        agt_systemPrompt = ''Be brief.'', agt_enabledToolsJson = ''[]'',
                        agt_createdAt = 1600000000000, agt_updatedAt = 1600000000000\<rparr>,
         ''agt_2'' \<mapsto> \<lparr>agt_tenantId = ''tnt_2'', agt_name = ''Beta'',
                        agt_primaryProvider = ''vendorA'', agt_fallbackProvider = Some ''vendorB'',
                        agt_systemPrompt = ''Be kind.'', agt_enabledToolsJson = ''[]'',
                        agt_createdAt = 1600000000000, agt_updatedAt = 1600000000000\<rparr>],
      messages = [],
      provider_call_events = [],
      usage_events = [],
      clockReads = 0, uuidsDrawn = 0, randomDraws = 0, vendorCalls = 0,
      sleeps = []\<rparr>"

definition demoRequest :: providerRequest where
  "demoRequest = \<lparr>req_systemPrompt = ''Be brief.'',
                   req_messages = [\<lparr>cm_role = ''user'', cm_content = ''hello''\<rparr>],
                   req_enabledTools = []\<rparr>"

definition demoContext :: callContext where
  "demoContext = \<lparr>ctx_tenantId = ''tnt_1'', ctx_sessionId = ''ses_1'',
                   ctx_agentId = ''agt_1'', ctx_requestId = ''req_1''\<rparr>"


text \<open>
  The world after a completed send under key \<open>K1\<close>: its idempotency record holds
  the stored response.
\<close>

definition completedWorld :: world where
  "completedWorld = demoWorld\<lparr>idempotency_records :=
     [\<lparr>idem_id = ''idem_0'', idem_tenantId = ''tnt_1'', idem_scope = ''send_message'',
       idem_idempotencyKey = ''K1'', idem_sessionId = Some ''ses_1'',
       idem_requestHash = ''8b5c5a0212271058b0eda8a48e1a8416d24474b4d5095acf98d75a08c5441154'',
       idem_responseJson = Some ''{envelope}'', idem_createdAt = 1700000000001\<rparr>]\<rparr>"

text \<open>
  Two sends of tenant \<open>tnt_1\<close> under the same key \<open>K1\<close>. Request A runs its first
  part (the gate: no record yet, placeholder inserted) and is suspended at the
  \<open>await\<close> of \<open>SessionRepo.findById\<close>; request B then runs from start to end;
  request A resumes with its second and third part.
\<close>

definition duplicateSends ::
  "((thrown + sendMessageResponse) + string) \<times> (thrown + sendMessageResponse)
     \<times> (thrown + sendMessageResponse) \<times> world" where
  "duplicateSends =
     (let (gateA, w1) = idempotencyGate demoEnv ''tnt_1'' ''ses_1'' (Some ''K1'') ''hello''
                          ''req_A'' demoWorld;
          (resultB, w2) = sendMessage demoEnv ''tnt_1'' ''ses_1'' (Some ''K1'') ''hello''
                          ''req_B'' w1;
          (turnA, w3) = persistUserTurn demoEnv ''tnt_1'' ''ses_1'' ''hello'' ''req_A'' w2;
          (resultA, w4) = (case turnA of
                             Inl finished \<Rightarrow> (finished, w3)
                           | Inr t \<Rightarrow> deliver demoEnv ''tnt_1'' ''ses_1'' ''K1'' ''req_A'' t w3)
      in (gateA, resultB, resultA, w4))"

text \<open>Whether a call returned a response that is not a replay.\<close>

definition freshResponse :: "thrown + sendMessageResponse \<Rightarrow> bool" where
  "freshResponse r =
     (case r of Inl err \<Rightarrow> False
      | Inr envelope \<Rightarrow> \<not> ri_replayed (md_idempotency (smr_metadata envelope)))"

section \<open>Vocabulary of the claims\<close>

text \<open>
  What the \<open>k\<close>-th vendor call settles to under the timeout of the policy, and
  the failure the \<open>catch\<close> block makes of it (none for a response).
\<close>

definition settledCall ::
  "providerAdapter \<Rightarrow> providerRequest \<Rightarrow> retryConfig \<Rightarrow> nat \<Rightarrow> callOutcome" where
  "settledCall provider request config k =
     withTimeout (ad_call provider k request) (timeoutMs config)
       (''Provider '' @ ad_name provider @ '' timed out after ''
          @ showNat (timeoutMs config) @ ''ms'')"

definition failureOf :: "callOutcome \<Rightarrow> providerError option" where
  "failureOf outcome =
     (case outcome of
        Resolves response \<Rightarrow> None
      | Rejects err \<Rightarrow> Some err
      | other \<Rightarrow> Some \<lparr>pe_message = ''Unknown error'', pe_statusCode = 500,
                         pe_errorCode = ''UNKNOWN_ERROR'', pe_retryAfterMs = None\<rparr>)"

definition responseOf :: "callOutcome \<Rightarrow> normalizedResponse option" where
  "responseOf outcome = (case outcome of Resolves response \<Rightarrow> Some response | other \<Rightarrow> None)"

text \<open>The attempt record that the loop pushes for an outcome, up to its latency.\<close>

definition attemptOf :: "string \<Rightarrow> nat \<Rightarrow> int \<Rightarrow> callOutcome \<Rightarrow> providerCallAttempt" where
  "attemptOf providerName attempt latencyMs outcome =
     (case failureOf outcome of
        None \<Rightarrow>
          \<lparr>a_provider = providerName, a_status = success_status, a_httpStatus = Some 200,
           a_latencyMs = latencyMs, a_retries = attempt, a_errorCode = None,
           a_errorMessage = None\<rparr>
      | Some err \<Rightarrow>
          \<lparr>a_provider = providerName, a_status = failed_status,
           a_httpStatus = Some (pe_statusCode err), a_latencyMs = latencyMs,
           a_retries = attempt, a_errorCode = Some (pe_errorCode err),
           a_errorMessage = Some (pe_message err)\<rparr>)"

text \<open>The row of \<open>provider_call_events\<close> that records an attempt of a send.\<close>

definition eventOfAttempt ::
  "callContext \<Rightarrow> string \<Rightarrow> int \<Rightarrow> providerCallAttempt \<Rightarrow> providerCallEvent" where
  "eventOfAttempt context eventId createdAt a =
     \<lparr>pce_id = eventId, pce_tenantId = ctx_tenantId context,
      pce_sessionId = ctx_sessionId context, pce_agentId = ctx_agentId context,
      pce_provider = a_provider a, pce_status = a_status a, pce_httpStatus = a_httpStatus a,
      pce_latencyMs = Some (a_latencyMs a), pce_retries = a_retries a,
      pce_errorCode = a_errorCode a, pce_errorMessage = a_errorMessage a,
      pce_createdAt = createdAt, pce_requestId = ctx_requestId context\<rparr>"

definition recordsAttempt :: "callContext \<Rightarrow> providerCallEvent \<Rightarrow> providerCallAttempt \<Rightarrow> bool" where
  "recordsAttempt context row a =
     (row = eventOfAttempt context (pce_id row) (pce_createdAt row) a)"

text \<open>The world after one attempt, and after the backoff that follows it.\<close>

definition afterAttempt :: "env \<Rightarrow> providerAdapter \<Rightarrow> providerRequest \<Rightarrow> retryConfig \<Rightarrow> callContext \<Rightarrow> nat \<Rightarrow> world \<Rightarrow> world" where
  "afterAttempt e p req cfg ctx i w = snd (snd (attemptCall e p req cfg ctx i w))"

definition attemptRecordAt :: "env \<Rightarrow> providerAdapter \<Rightarrow> providerRequest \<Rightarrow> retryConfig \<Rightarrow> nat \<Rightarrow> world \<Rightarrow> providerCallAttempt" where
  "attemptRecordAt e p req cfg i w =
     attemptOf (ad_name p) i (nowOracle e (Suc (clockReads w)) - nowOracle e (clockReads w))
       (settledCall p req cfg (vendorCalls w))"

definition afterBackoff :: "env \<Rightarrow> nat \<Rightarrow> retryConfig \<Rightarrow> providerError \<Rightarrow> world \<Rightarrow> world" where
  "afterBackoff e i cfg err w =
     sleep (fst (calculateBackoff e i (initialBackoffMs cfg) (getRetryAfter err) w))
           (snd (calculateBackoff e i (initialBackoffMs cfg) (getRetryAfter err) w))"

text \<open>
  What a run of the retry loop from attempt \<open>i\<close> in world \<open>w\<close> leaves: the attempts
  \<open>new\<close> it pushed, the rows it wrote, its result and its world.
\<close>

definition retryRun ::
  "env \<Rightarrow> providerAdapter \<Rightarrow> providerRequest \<Rightarrow> retryConfig \<Rightarrow> callContext \<Rightarrow> nat \<Rightarrow> world
     \<Rightarrow> providerCallAttempt list \<Rightarrow> providerCallEvent list \<Rightarrow> providerCallResult \<Rightarrow> world \<Rightarrow> bool" where
  "retryRun e p req cfg ctx i w new rows res w' =
     (new \<noteq> [] \<and> i + length new \<le> Suc (maxRetries cfg)
      \<and> vendorCalls w' = vendorCalls w + length new
      \<and> (\<forall>k<length new. \<exists>lat. new ! k =
            attemptOf (ad_name p) (i + k) lat (settledCall p req cfg (vendorCalls w + k)))
      \<and> (\<forall>k. Suc k < length new \<longrightarrow>
            (\<exists>err. failureOf (settledCall p req cfg (vendorCalls w + k)) = Some err
                   \<and> isRetryable err))
      \<and> pr_success res
           = (failureOf (settledCall p req cfg (vendorCalls w + (length new - 1))) = None)
      \<and> pr_response res = responseOf (settledCall p req cfg (vendorCalls w + (length new - 1)))
      \<and> pr_error res = failureOf (settledCall p req cfg (vendorCalls w + (length new - 1)))
      \<and> (\<not> pr_success res \<longrightarrow>
            i + length new = Suc (maxRetries cfg) \<or> \<not> isRetryable (the (pr_error res)))
      \<and> pr_providerUsed res = ad_name p \<and> pr_fallbackUsed res = False
      \<and> provider_call_events w' = provider_call_events w @ rows
      \<and> list_all2 (recordsAttempt ctx) rows new
      \<and> idempotency_records w' = idempotency_records w \<and> sessions w' = sessions w
      \<and> agents w' = agents w \<and> messages w' = messages w \<and> usage_events w' = usage_events w)"

section \<open>Unfolding sets\<close>

lemmas effect_defs = Date_now_def Math_random_def sleep_def generateId_def
  generateMessageId_def generateEventId_def generateIdempotencyId_def

lemmas repo_defs = ProviderCallEventRepo_create_def IdempotencyRepo_lookup_def
  prisma_idempotencyRecord_create_def IdempotencyRepo_create_def
  IdempotencyRepo_updateResponse_def SessionRepo_findById_def
  SessionRepo_updateLastActivity_def AgentRepo_findById_def MessageRepo_create_def
  MessageRepo_listBySession_def UsageEventRepo_create_def

lemmas retry_defs = attemptCall_def callProviderWithRetry_def callProviderWithFallback_def
  calculateBackoff_def isRetryable_def isRetryableError_def getRetryAfter_def
  withTimeout_def DEFAULT_RETRY_CONFIG_def

lemmas pipeline_defs = sendMessage_def idempotencyGate_def persistUserTurn_def deliver_def
  computeRequestHash_def getProviderAdapter_def VendorAAdapter_def VendorBAdapter_def
  replayStored_def markReplayed_def populated_def calculateCost_def PRICING_TABLE_def
  Math_round_def

lemmas scenario_defs = demoEnv_def outageEnv_def flakyEnv_def rejectingEnv_def
  demoWorld_def demoResponse_def serverError_def clientError_def demoRequest_def
  demoContext_def demoEnvelope_def

section \<open>Pricing\<close>

lemma round_half_even_of_int: "round_half_even (of_int n) = n"
  by (simp add: round_half_even_def)

lemma Math_round_of_int: "Math_round (of_int n) = n"
proof -
  have "\<lfloor>(of_int n :: rat) + 1 / 2\<rfloor> = n" by linarith
  then show ?thesis by (simp add: Math_round_def)
qed

lemma scaled_cost_integral:
  "(of_nat t :: rat) / 1000 * (of_nat k / 1000) * 1000000 = of_int (int (t * k))"
  by simp

text \<open>
  C4. For a vendor of the table and non-negative integer token counts,
  \<open>calculateCost\<close> returns \<open>round6((tokensIn + tokensOut) / 1000 * rate[vendor])\<close>
  with \<open>round6\<close> round-half-to-even at six decimals and the rates 0.002 and 0.003.
  (The scaled cost is a whole number of micro-dollars, so \<open>Math.round\<close> and
  round-half-to-even agree on it.)
\<close>

theorem calculateCost_round6:
  assumes "vendor = ''vendorA'' \<or> vendor = ''vendorB''"
  shows "calculateCost vendor (of_nat tokensIn) (of_nat tokensOut)
           = Inr (spec_cost vendor tokensIn tokensOut)"
proof -
  obtain k :: nat where k: "PRICING_TABLE vendor = Some (of_nat k / 1000)"
    "spec_rate vendor = of_nat k / 1000"
    using assms by (auto simp: PRICING_TABLE_def spec_rate_def intro: that[of 2] that[of 3])
  let ?t = "tokensIn + tokensOut"
  have s: "(of_nat ?t :: rat) / 1000 * (of_nat k / 1000) * 1000000 = of_int (int (?t * k))"
    by (rule scaled_cost_integral)
  have code: "calculateCost vendor (of_nat tokensIn) (of_nat tokensOut)
      = Inr (of_int (Math_round (of_nat ?t / 1000 * (of_nat k / 1000) * 1000000)) / 1000000)"
    by (simp add: calculateCost_def k Let_def)
  have spec: "spec_cost vendor tokensIn tokensOut
      = of_int (round_half_even (of_nat ?t / 1000 * (of_nat k / 1000) * 1000000)) / 1000000"
    by (simp add: spec_cost_def round6_def k)
  show ?thesis
    unfolding code spec s Math_round_of_int round_half_even_of_int ..
qed

theorem calculateCost_round6_witness:
  "calculateCost ''vendorA'' (of_nat 100) (of_nat 200) = Inr (spec_cost ''vendorA'' 100 200)
   \<and> spec_cost ''vendorA'' 100 200 = 6 / 10000"
  using calculateCost_round6 [of "''vendorA''" 100 200]
  by (simp add: spec_cost_def round6_def spec_rate_def round_half_even_def)

text \<open>
  Outside the claim's domain the two roundings part: a quarter of a token costs
  half a micro-dollar, which \<open>Math.round\<close> takes up and round-half-to-even down.
\<close>

lemma floor_one_half: "\<lfloor>1 / 2 :: rat\<rfloor> = 0"
  by (simp add: floor_eq_iff)

lemma calculateCost_half_microdollar:
  "calculateCost ''vendorA'' (1 / 4) 0 = Inr (1 / 1000000)
   \<and> round6 ((1 / 4 + 0) / 1000 * spec_rate ''vendorA'') = 0"
  by (simp add: calculateCost_def PRICING_TABLE_def Math_round_def round6_def
      round_half_even_def spec_rate_def Let_def floor_one_half)

section \<open>Backoff\<close>

lemma calculateBackoff_exponential:
  assumes "\<not> (retryAfterMs \<noteq> None \<and> the retryAfterMs > 0)"
  shows "fst (calculateBackoff e i b retryAfterMs w)
     = of_int \<lfloor>b * 2 ^ i + b * 2 ^ i * (1 / 10) * (randomOracle e (randomDraws w) * 2 - 1)\<rfloor>"
  using assms by (auto simp add: calculateBackoff_def Math_random_def Let_def)

text \<open>
  C7 as stated fails: the code has no 10 s cap. At retry index 6 with a jitter
  draw of one half the wait is 12800 ms, above \<open>1.1 * 10 s\<close>.
\<close>

theorem calculateBackoff_uncapped_counterexample:
  "fst (calculateBackoff demoEnv 6 200 None demoWorld) = 12800
   \<and> \<not> fst (calculateBackoff demoEnv 6 200 None demoWorld) \<le> 11 / 10 * min 10000 (200 * 2 ^ 6)
   \<and> \<not> fst (calculateBackoff demoEnv 6 200 None demoWorld) \<le> 11 / 10 * 10000"
  by (simp add: calculateBackoff_def Math_random_def demoEnv_def demoWorld_def Let_def)

text \<open>
  C7, amended. With a base backoff of 200 ms and a jitter draw in \<open>[0, 1)\<close>: the wait
  is \<open>retryAfterMs\<close> exactly, with no jitter and no draw, when the failure supplied a
  positive one; otherwise it lies in \<open>[0.9, 1.1] * (200 ms * 2^i)\<close>, uncapped; for
  \<open>i \<le> 5\<close> this is the window \<open>[0.9, 1.1] * min(10 s, 200 ms * 2^i)\<close> of the claim
  and the wait stays below \<open>1.1 * 10 s\<close>.
\<close>

theorem calculateBackoff_window:
  assumes "0 \<le> randomOracle e (randomDraws w)" and "randomOracle e (randomDraws w) < 1"
  shows "(0 < ra \<longrightarrow> calculateBackoff e i 200 (Some ra) w = (ra, w))
     \<and> ((retryAfterMs = None \<or> the retryAfterMs \<le> 0) \<longrightarrow>
          9 / 10 * (200 * 2 ^ i) \<le> fst (calculateBackoff e i 200 retryAfterMs w)
        \<and> fst (calculateBackoff e i 200 retryAfterMs w) \<le> 11 / 10 * (200 * 2 ^ i)
        \<and> (i \<le> 5 \<longrightarrow>
             9 / 10 * min 10000 (200 * 2 ^ i) \<le> fst (calculateBackoff e i 200 retryAfterMs w)
           \<and> fst (calculateBackoff e i 200 retryAfterMs w) \<le> 11 / 10 * min 10000 (200 * 2 ^ i)
           \<and> fst (calculateBackoff e i 200 retryAfterMs w) \<le> 11 / 10 * 10000))"
proof (intro conjI impI)
  assume "0 < ra"
  then show "calculateBackoff e i 200 (Some ra) w = (ra, w)"
    by (simp add: calculateBackoff_def)
next
  assume h: "retryAfterMs = None \<or> the retryAfterMs \<le> 0"
  define r where "r = randomOracle e (randomDraws w)"
  define x :: rat where "x = 200 * 2 ^ i + 200 * 2 ^ i * (1 / 10) * (r * 2 - 1)"
  have v: "fst (calculateBackoff e i 200 retryAfterMs w) = of_int \<lfloor>x\<rfloor>"
    using h calculateBackoff_exponential[of retryAfterMs e i 200 w] by (auto simp: x_def r_def)
  have p: "(0::rat) < 2 ^ i" by simp
  have lo: "of_int (180 * 2 ^ i) \<le> x"
  proof -
    have "x = of_int (180 * 2 ^ i) + 40 * 2 ^ i * r" by (simp add: x_def algebra_simps)
    moreover have "0 \<le> 40 * 2 ^ i * r" using assms(1) p by (simp add: r_def)
    ultimately show ?thesis by linarith
  qed
  have hi: "x \<le> 220 * 2 ^ i"
  proof -
    have "x = 220 * 2 ^ i - 40 * 2 ^ i * (1 - r)" by (simp add: x_def algebra_simps)
    moreover have "0 \<le> 40 * 2 ^ i * (1 - r)" using assms(2) p by (simp add: r_def)
    ultimately show ?thesis by linarith
  qed
  have "180 * 2 ^ i \<le> \<lfloor>x\<rfloor>" using lo by (simp add: le_floor_iff)
  then have "(of_int (180 * 2 ^ i) :: rat) \<le> of_int \<lfloor>x\<rfloor>" by (simp only: of_int_le_iff)
  then show lower: "9 / 10 * (200 * 2 ^ i) \<le> fst (calculateBackoff e i 200 retryAfterMs w)"
    by (simp add: v)
  have "of_int \<lfloor>x\<rfloor> \<le> x" by simp
  then have "of_int \<lfloor>x\<rfloor> \<le> 220 * (2::rat) ^ i" using hi by linarith
  then show upper: "fst (calculateBackoff e i 200 retryAfterMs w) \<le> 11 / 10 * (200 * 2 ^ i)"
    by (simp add: v)
  {
    assume "i \<le> 5"
    then have "(2::rat) ^ i \<le> 2 ^ 5" by (intro power_increasing) auto
    then have m: "min 10000 (200 * 2 ^ i) = (200 * 2 ^ i :: rat)" by simp
    show "9 / 10 * min 10000 (200 * 2 ^ i) \<le> fst (calculateBackoff e i 200 retryAfterMs w)"
      using lower by (simp only: m)
    show c: "fst (calculateBackoff e i 200 retryAfterMs w) \<le> 11 / 10 * min 10000 (200 * 2 ^ i)"
      using upper by (simp only: m)
    have "11 / 10 * min 10000 (200 * 2 ^ i) \<le> 11 / 10 * (10000 :: rat)" by simp
    then show "fst (calculateBackoff e i 200 retryAfterMs w) \<le> 11 / 10 * 10000"
      using c by linarith
  }
qed

theorem calculateBackoff_window_witness:
  "calculateBackoff demoEnv 1 200 (Some 750) demoWorld = (750, demoWorld)
   \<and> 360 \<le> fst (calculateBackoff demoEnv 1 200 None demoWorld)
   \<and> fst (calculateBackoff demoEnv 1 200 None demoWorld) \<le> 440"
proof -
  have r: "0 \<le> randomOracle demoEnv (randomDraws demoWorld)"
    "randomOracle demoEnv (randomDraws demoWorld) < 1"
    by (simp_all add: demoEnv_def)
  show ?thesis
    using calculateBackoff_window [OF r, of 750 1 None] by simp
qed


section \<open>Retry engine\<close>

lemma attemptCall_effect:
  "attemptCall e p req cfg ctx i w =
     (let out = settledCall p req cfg (vendorCalls w);
          a = attemptOf (ad_name p) i (nowOracle e (Suc (clockReads w)) - nowOracle e (clockReads w)) out
      in ((case failureOf out of None \<Rightarrow> Inr (the (responseOf out)) | Some err \<Rightarrow> Inl err),
          a,
          w\<lparr>clockReads := clockReads w + 3, uuidsDrawn := Suc (uuidsDrawn w),
            vendorCalls := Suc (vendorCalls w),
            provider_call_events := provider_call_events w
              @ [eventOfAttempt ctx (''evt_'' @ uuidOracle e (uuidsDrawn w))
                   (nowOracle e (clockReads w + 2)) a]\<rparr>))"
  by (cases "ad_call p (vendorCalls w) req")
     (simp_all add: attemptCall_def settledCall_def withTimeout_def failureOf_def responseOf_def
       attemptOf_def eventOfAttempt_def effect_defs ProviderCallEventRepo_create_def Let_def)

lemma retryLoop_step:
  assumes "i \<le> maxRetries cfg"
  shows "retryLoop e p req cfg ctx i atts le w =
     (case failureOf (settledCall p req cfg (vendorCalls w)) of
        None \<Rightarrow>
          (\<lparr>pr_success = True,
            pr_response = Some (the (responseOf (settledCall p req cfg (vendorCalls w)))),
            pr_error = None, pr_attempts = atts @ [attemptRecordAt e p req cfg i w],
            pr_providerUsed = ad_name p, pr_fallbackUsed = False\<rparr>,
           afterAttempt e p req cfg ctx i w)
      | Some err \<Rightarrow>
          (if i < maxRetries cfg \<and> isRetryable err then
             retryLoop e p req cfg ctx (Suc i) (atts @ [attemptRecordAt e p req cfg i w]) (Some err)
               (afterBackoff e i cfg err (afterAttempt e p req cfg ctx i w))
           else
             (\<lparr>pr_success = False, pr_response = None, pr_error = Some err,
               pr_attempts = atts @ [attemptRecordAt e p req cfg i w],
               pr_providerUsed = ad_name p, pr_fallbackUsed = False\<rparr>,
              afterAttempt e p req cfg ctx i w)))"
  using assms
  apply (subst retryLoop.simps)
  apply (simp add: attemptCall_effect afterAttempt_def attemptRecordAt_def afterBackoff_def
      isRetryableError_def Let_def sleep_def split: option.splits prod.splits)
  done

lemma afterAttempt_fields:
  "vendorCalls (afterAttempt e p req cfg ctx i w) = Suc (vendorCalls w)"
  "provider_call_events (afterAttempt e p req cfg ctx i w) = provider_call_events w
      @ [eventOfAttempt ctx (''evt_'' @ uuidOracle e (uuidsDrawn w)) (nowOracle e (clockReads w + 2))
           (attemptRecordAt e p req cfg i w)]"
  "idempotency_records (afterAttempt e p req cfg ctx i w) = idempotency_records w"
  "sessions (afterAttempt e p req cfg ctx i w) = sessions w"
  "agents (afterAttempt e p req cfg ctx i w) = agents w"
  "messages (afterAttempt e p req cfg ctx i w) = messages w"
  "usage_events (afterAttempt e p req cfg ctx i w) = usage_events w"
  by (simp_all add: afterAttempt_def attemptCall_effect attemptRecordAt_def Let_def)

lemma afterBackoff_fields:
  "vendorCalls (afterBackoff e i cfg err w) = vendorCalls w"
  "provider_call_events (afterBackoff e i cfg err w) = provider_call_events w"
  "idempotency_records (afterBackoff e i cfg err w) = idempotency_records w"
  "sessions (afterBackoff e i cfg err w) = sessions w"
  "agents (afterBackoff e i cfg err w) = agents w"
  "messages (afterBackoff e i cfg err w) = messages w"
  "usage_events (afterBackoff e i cfg err w) = usage_events w"
  by (simp_all add: afterBackoff_def calculateBackoff_def sleep_def Math_random_def Let_def
      split: prod.splits)

lemma failureOf_None_response:
  "failureOf out = None \<Longrightarrow> responseOf out = Some (the (responseOf out))"
  by (cases out) (simp_all add: failureOf_def responseOf_def)

lemma failureOf_Some_response: "failureOf out = Some err \<Longrightarrow> responseOf out = None"
  by (cases out) (simp_all add: failureOf_def responseOf_def)

lemma recordsAttempt_eventOfAttempt: "recordsAttempt ctx (eventOfAttempt ctx evt t a) a"
  by (simp add: recordsAttempt_def eventOfAttempt_def)

lemma retryRun_single:
  assumes "i \<le> maxRetries cfg"
    and "res = \<lparr>pr_success = (failureOf (settledCall p req cfg (vendorCalls w)) = None),
               pr_response = responseOf (settledCall p req cfg (vendorCalls w)),
               pr_error = failureOf (settledCall p req cfg (vendorCalls w)),
               pr_attempts = atts @ [attemptRecordAt e p req cfg i w],
               pr_providerUsed = ad_name p, pr_fallbackUsed = False\<rparr>"
    and "pr_success res \<or> i = maxRetries cfg \<or> \<not> isRetryable (the (pr_error res))"
  shows "\<exists>rows. retryRun e p req cfg ctx i w [attemptRecordAt e p req cfg i w] rows res
           (afterAttempt e p req cfg ctx i w)"
  using assms
  by (auto simp add: retryRun_def afterAttempt_fields attemptRecordAt_def
      recordsAttempt_eventOfAttempt)

lemma retryRun_cons:
  assumes r: "retryRun e p req cfg ctx (Suc i) w2 new rows res w'"
    and w2: "vendorCalls w2 = Suc (vendorCalls w)"
      "provider_call_events w2 = provider_call_events w @ [row]"
      "idempotency_records w2 = idempotency_records w" "sessions w2 = sessions w"
      "agents w2 = agents w" "messages w2 = messages w" "usage_events w2 = usage_events w"
    and a: "a = attemptOf (ad_name p) i lat (settledCall p req cfg (vendorCalls w))"
    and row: "recordsAttempt ctx row a"
    and err: "failureOf (settledCall p req cfg (vendorCalls w)) = Some err" "isRetryable err"
  shows "retryRun e p req cfg ctx i w (a # new) (row # rows) res w'"
proof -
  from r have n: "new \<noteq> []" by (simp add: retryRun_def)
  then have len: "length new - 1 + 1 = length new" by (cases new) simp_all
  have idx: "vendorCalls w + (length (a # new) - 1) = vendorCalls w2 + (length new - 1)"
    using n w2(1) by (cases new) simp_all
  have at: "\<forall>k<length (a # new). \<exists>lat. (a # new) ! k =
      attemptOf (ad_name p) (i + k) lat (settledCall p req cfg (vendorCalls w + k))"
  proof (intro allI impI)
    fix k assume k: "k < length (a # new)"
    show "\<exists>lat. (a # new) ! k =
      attemptOf (ad_name p) (i + k) lat (settledCall p req cfg (vendorCalls w + k))"
    proof (cases k)
      case 0
      then show ?thesis using a by auto
    next
      case (Suc j)
      with k have "j < length new" by simp
      with r obtain lat' where "new ! j =
        attemptOf (ad_name p) (Suc i + j) lat' (settledCall p req cfg (vendorCalls w2 + j))"
        unfolding retryRun_def by blast
      then show ?thesis using Suc w2(1) by auto
    qed
  qed
  have mid: "\<forall>k. Suc k < length (a # new) \<longrightarrow>
      (\<exists>err. failureOf (settledCall p req cfg (vendorCalls w + k)) = Some err \<and> isRetryable err)"
  proof (intro allI impI)
    fix k assume k: "Suc k < length (a # new)"
    show "\<exists>err. failureOf (settledCall p req cfg (vendorCalls w + k)) = Some err \<and> isRetryable err"
    proof (cases k)
      case 0
      then show ?thesis using err by auto
    next
      case (Suc j)
      with k have "Suc j < length new" by simp
      with r obtain err' where
        "failureOf (settledCall p req cfg (vendorCalls w2 + j)) = Some err'" "isRetryable err'"
        unfolding retryRun_def by blast
      then show ?thesis using Suc w2(1) by auto
    qed
  qed
  show ?thesis
    unfolding retryRun_def
    using r at mid row n w2 unfolding retryRun_def idx
    by (auto simp add: )
qed

lemma retryLoop_run:
  assumes "i \<le> maxRetries cfg"
    and "retryLoop e p req cfg ctx i atts le w = (res, w')"
  shows "\<exists>new rows. pr_attempts res = atts @ new \<and> retryRun e p req cfg ctx i w new rows res w'"
  using assms
proof (induction "maxRetries cfg - i" arbitrary: i atts le w)
  case 0
  then have i: "i = maxRetries cfg" by simp
  let ?out = "settledCall p req cfg (vendorCalls w)"
  let ?a = "attemptRecordAt e p req cfg i w"
  show ?case
  proof (cases "failureOf ?out")
    case None
    with "0.prems" have res: "res = \<lparr>pr_success = True, pr_response = Some (the (responseOf ?out)),
         pr_error = None, pr_attempts = atts @ [?a], pr_providerUsed = ad_name p,
         pr_fallbackUsed = False\<rparr>" and w': "w' = afterAttempt e p req cfg ctx i w"
      by (simp_all add: retryLoop_step)
    have "\<exists>rows. retryRun e p req cfg ctx i w [?a] rows res (afterAttempt e p req cfg ctx i w)"
      by (rule retryRun_single) (use "0.prems"(1) None res failureOf_None_response[OF None] in auto)
    then show ?thesis using res w' by auto
  next
    case (Some err)
    with "0.prems" i have res: "res = \<lparr>pr_success = False, pr_response = None,
         pr_error = Some err, pr_attempts = atts @ [?a], pr_providerUsed = ad_name p,
         pr_fallbackUsed = False\<rparr>" and w': "w' = afterAttempt e p req cfg ctx i w"
      by (simp_all add: retryLoop_step)
    have "\<exists>rows. retryRun e p req cfg ctx i w [?a] rows res (afterAttempt e p req cfg ctx i w)"
      by (rule retryRun_single)
        (use "0.prems"(1) Some res i failureOf_Some_response[OF Some] in auto)
    then show ?thesis using res w' by auto
  qed
next
  case (Suc n)
  then have i: "i < maxRetries cfg" by simp
  let ?out = "settledCall p req cfg (vendorCalls w)"
  let ?a = "attemptRecordAt e p req cfg i w"
  let ?w1 = "afterAttempt e p req cfg ctx i w"
  show ?case
  proof (cases "failureOf ?out")
    case None
    with Suc.prems have res: "res = \<lparr>pr_success = True, pr_response = Some (the (responseOf ?out)),
         pr_error = None, pr_attempts = atts @ [?a], pr_providerUsed = ad_name p,
         pr_fallbackUsed = False\<rparr>" and w': "w' = ?w1"
      by (simp_all add: retryLoop_step)
    have "\<exists>rows. retryRun e p req cfg ctx i w [?a] rows res ?w1"
      by (rule retryRun_single) (use Suc.prems(1) None res failureOf_None_response[OF None] in auto)
    then show ?thesis using res w' by auto
  next
    case (Some err)
    show ?thesis
    proof (cases "isRetryable err")
      case False
      with Some Suc.prems have res: "res = \<lparr>pr_success = False, pr_response = None,
           pr_error = Some err, pr_attempts = atts @ [?a], pr_providerUsed = ad_name p,
           pr_fallbackUsed = False\<rparr>" and w': "w' = ?w1"
        by (simp_all add: retryLoop_step)
      have "\<exists>rows. retryRun e p req cfg ctx i w [?a] rows res ?w1"
        by (rule retryRun_single)
          (use Suc.prems(1) Some res False failureOf_Some_response[OF Some] in auto)
      then show ?thesis using res w' by auto
    next
      case True
      let ?w2 = "afterBackoff e i cfg err ?w1"
      from True Some i Suc.prems have rec:
        "retryLoop e p req cfg ctx (Suc i) (atts @ [?a]) (Some err) ?w2 = (res, w')"
        by (simp add: retryLoop_step)
      have n: "n = maxRetries cfg - Suc i" using Suc.hyps(2) by simp
      from Suc.hyps(1)[OF n _ rec] i obtain new rows where
        att: "pr_attempts res = (atts @ [?a]) @ new"
        and run: "retryRun e p req cfg ctx (Suc i) ?w2 new rows res w'"
        by auto
      have "retryRun e p req cfg ctx i w (?a # new)
          (eventOfAttempt ctx (''evt_'' @ uuidOracle e (uuidsDrawn w))
             (nowOracle e (clockReads w + 2)) ?a # rows) res w'"
        by (rule retryRun_cons[OF run _ _ _ _ _ _ _ _ _ Some True])
          (simp_all add: afterBackoff_fields afterAttempt_fields attemptRecordAt_def
            recordsAttempt_eventOfAttempt)
      then show ?thesis using att by auto
    qed
  qed
qed

lemma attemptOf_fields:
  "a_retries (attemptOf name k lat out) = k"
  "a_provider (attemptOf name k lat out) = name"
  by (simp_all add: attemptOf_def split: option.splits)

lemma timeout_is_retryable:
  assumes "ad_call provider k request = TimesOut"
  shows "\<exists>err. failureOf (settledCall provider request config k) = Some err
           \<and> pe_statusCode err = 504 \<and> pe_errorCode err = ''TIMEOUT'' \<and> isRetryable err"
  using assms by (simp add: settledCall_def withTimeout_def failureOf_def isRetryable_def)

text \<open>
  C6. For every adapter, request and policy, \<open>callProviderWithRetry\<close> issues
  \<open>n\<close> vendor calls with \<open>1 \<le> n \<le> maxRetries + 1\<close>, one attempt record per call
  with the retry indices \<open>0, 1, ..., n - 1\<close> in invocation order; every call before
  the last failed with a retryable failure; the run is a success exactly when the
  last call resolved, and then returns that response (the first one, at once);
  a failed run stopped before the last allowed attempt only on a non-retryable
  failure, and a non-retryable failure always ends the run; retryable means
  \<open>statusCode \<ge> 500\<close> or \<open>statusCode = 429\<close>, and a timeout is the retryable
  failure 504 \<open>TIMEOUT\<close>.
\<close>

theorem callProviderWithRetry_bounded:
  assumes "callProviderWithRetry e provider request config context w = (res, w')"
  shows "let n = length (pr_attempts res);
             settled = (\<lambda>k. settledCall provider request config (vendorCalls w + k))
         in 1 \<le> n \<and> n \<le> maxRetries config + 1
          \<and> vendorCalls w' = vendorCalls w + n
          \<and> map a_retries (pr_attempts res) = [0..<n]
          \<and> (\<forall>k<n. \<exists>lat. pr_attempts res ! k = attemptOf (ad_name provider) k lat (settled k))
          \<and> (\<forall>k. Suc k < n \<longrightarrow> (\<exists>err. failureOf (settled k) = Some err \<and> isRetryable err))
          \<and> (pr_success res \<longleftrightarrow> failureOf (settled (n - 1)) = None)
          \<and> pr_response res = responseOf (settled (n - 1))
          \<and> pr_error res = failureOf (settled (n - 1))
          \<and> (\<not> pr_success res \<longrightarrow>
                n = maxRetries config + 1 \<or> \<not> isRetryable (the (pr_error res)))
          \<and> (\<forall>k<n. \<forall>err. failureOf (settled k) = Some err \<and> \<not> isRetryable err \<longrightarrow> Suc k = n)
          \<and> (\<forall>err. isRetryable err \<longleftrightarrow> pe_statusCode err \<ge> 500 \<or> pe_statusCode err = 429)
          \<and> (\<forall>k. ad_call provider k request = TimesOut \<longrightarrow>
                (\<exists>err. failureOf (settledCall provider request config k) = Some err
                   \<and> pe_statusCode err = 504 \<and> pe_errorCode err = ''TIMEOUT''
                   \<and> isRetryable err))"
proof -
  from assms have loop: "retryLoop e provider request config context 0 [] None w = (res, w')"
    by (simp add: callProviderWithRetry_def)
  from retryLoop_run[OF _ loop] obtain new rows where
    att: "pr_attempts res = new"
    and run: "retryRun e provider request config context 0 w new rows res w'"
    by auto
  let ?n = "length new"
  let ?settled = "\<lambda>k. settledCall provider request config (vendorCalls w + k)"
  from run have nth: "\<forall>k<?n. \<exists>lat. new ! k = attemptOf (ad_name provider) k lat (?settled k)"
    and mid: "\<forall>k. Suc k < ?n \<longrightarrow> (\<exists>err. failureOf (?settled k) = Some err \<and> isRetryable err)"
    by (simp_all add: retryRun_def)
  have idx: "map a_retries new = [0..<?n]"
  proof (rule nth_equalityI)
    show "length (map a_retries new) = length [0..<?n]" by simp
  next
    fix k assume "k < length (map a_retries new)"
    then have k: "k < ?n" by simp
    with nth obtain lat where "new ! k = attemptOf (ad_name provider) k lat (?settled k)"
      by blast
    then show "map a_retries new ! k = [0..<?n] ! k"
      using k by (simp add: attemptOf_fields)
  qed
  have early: "\<forall>k<?n. \<forall>err. failureOf (?settled k) = Some err \<and> \<not> isRetryable err \<longrightarrow> Suc k = ?n"
  proof (intro allI impI)
    fix k err assume k: "k < ?n" and f: "failureOf (?settled k) = Some err \<and> \<not> isRetryable err"
    show "Suc k = ?n"
    proof (rule ccontr)
      assume "Suc k \<noteq> ?n"
      with k have "Suc k < ?n" by simp
      with mid obtain err' where "failureOf (?settled k) = Some err'" "isRetryable err'" by blast
      with f show False by simp
    qed
  qed
  have tmo: "\<forall>k. ad_call provider k request = TimesOut \<longrightarrow>
      (\<exists>err. failureOf (settledCall provider request config k) = Some err
         \<and> pe_statusCode err = 504 \<and> pe_errorCode err = ''TIMEOUT'' \<and> isRetryable err)"
    using timeout_is_retryable by blast
  have rest: "1 \<le> ?n \<and> ?n \<le> maxRetries config + 1 \<and> vendorCalls w' = vendorCalls w + ?n
      \<and> (pr_success res \<longleftrightarrow> failureOf (?settled (?n - 1)) = None)
      \<and> pr_response res = responseOf (?settled (?n - 1))
      \<and> pr_error res = failureOf (?settled (?n - 1))
      \<and> (\<not> pr_success res \<longrightarrow> ?n = maxRetries config + 1 \<or> \<not> isRetryable (the (pr_error res)))"
  proof -
    from run have ne: "new \<noteq> []" by (simp add: retryRun_def)
    then have "1 \<le> ?n" by (cases new) simp_all
    moreover from run have "?n \<le> maxRetries config + 1" by (simp add: retryRun_def)
    moreover from run have "vendorCalls w' = vendorCalls w + ?n" by (simp add: retryRun_def)
    moreover from run have "pr_success res \<longleftrightarrow> failureOf (?settled (?n - 1)) = None"
      by (simp add: retryRun_def)
    moreover from run have "pr_response res = responseOf (?settled (?n - 1))"
      by (simp add: retryRun_def)
    moreover from run have "pr_error res = failureOf (?settled (?n - 1))"
      by (simp add: retryRun_def)
    moreover from run have "\<not> pr_success res \<longrightarrow>
        ?n = maxRetries config + 1 \<or> \<not> isRetryable (the (pr_error res))"
      unfolding retryRun_def by auto
    ultimately show ?thesis by blast
  qed
  have ret: "\<forall>err. isRetryable err \<longleftrightarrow> pe_statusCode err \<ge> 500 \<or> pe_statusCode err = 429"
    by (simp add: isRetryable_def)
  show ?thesis
    unfolding Let_def att
    using rest idx nth mid early ret tmo by blast
qed

text \<open>Vendor A answers 503 twice and then succeeds: three attempts, indices 0, 1, 2.\<close>

lemma flaky_primary_attempts:
  "length (pr_attempts (fst (callProviderWithRetry flakyEnv (VendorAAdapter flakyEnv)
      demoRequest DEFAULT_RETRY_CONFIG demoContext demoWorld))) = 3"
  by (simp add: effect_defs repo_defs retry_defs pipeline_defs scenario_defs retryLoop.simps
      Let_def showNat.simps)

theorem callProviderWithRetry_bounded_witness:
  "map a_retries (pr_attempts (fst (callProviderWithRetry flakyEnv (VendorAAdapter flakyEnv)
      demoRequest DEFAULT_RETRY_CONFIG demoContext demoWorld))) = [0..<3]
   \<and> vendorCalls (snd (callProviderWithRetry flakyEnv (VendorAAdapter flakyEnv)
      demoRequest DEFAULT_RETRY_CONFIG demoContext demoWorld)) = vendorCalls demoWorld + 3
   \<and> pr_success (fst (callProviderWithRetry flakyEnv (VendorAAdapter flakyEnv)
      demoRequest DEFAULT_RETRY_CONFIG demoContext demoWorld))"
proof -
  let ?run = "callProviderWithRetry flakyEnv (VendorAAdapter flakyEnv)
      demoRequest DEFAULT_RETRY_CONFIG demoContext demoWorld"
  have run: "?run = (fst ?run, snd ?run)" by simp
  have last: "failureOf (settledCall (VendorAAdapter flakyEnv) demoRequest DEFAULT_RETRY_CONFIG
      (vendorCalls demoWorld + (3 - 1))) = None"
    by (simp add: settledCall_def withTimeout_def failureOf_def VendorAAdapter_def flakyEnv_def
        demoEnv_def demoWorld_def)
  show ?thesis
    using callProviderWithRetry_bounded [OF run] flaky_primary_attempts last
    by (simp add: Let_def)
qed

text \<open>
  C5. \<open>callProviderWithFallback\<close> runs the retry engine against the primary
  adapter first. If the primary succeeds, its result is returned:
  \<open>fallbackUsed = false\<close> and only attempts of the primary. If it fails and no
  fallback is configured, the primary's failure with its attempts is returned.
  Otherwise the retry engine runs against the fallback from the world the primary
  left, and the result is the fallback's with \<open>fallbackUsed = true\<close> and the
  attempts \<open>primaryAttempts @ fallbackAttempts\<close>.
\<close>

theorem callProviderWithFallback_cases:
  assumes p: "callProviderWithRetry e primary request config context w = (primaryResult, w1)"
  shows "(pr_success primaryResult \<longrightarrow>
            callProviderWithFallback e primary fallback request config context w
              = (primaryResult, w1)
          \<and> pr_fallbackUsed primaryResult = False
          \<and> (\<forall>a \<in> set (pr_attempts primaryResult). a_provider a = ad_name primary))
       \<and> (\<not> pr_success primaryResult \<and> fallback = None \<longrightarrow>
            callProviderWithFallback e primary fallback request config context w
              = (primaryResult, w1))
       \<and> (\<forall>fb fallbackResult w2.
            \<not> pr_success primaryResult \<and> fallback = Some fb
            \<and> callProviderWithRetry e fb request config context w1 = (fallbackResult, w2) \<longrightarrow>
            callProviderWithFallback e primary fallback request config context w
              = (fallbackResult
                   \<lparr>pr_attempts := pr_attempts primaryResult @ pr_attempts fallbackResult,
                    pr_fallbackUsed := True\<rparr>, w2))"
proof -
  from p have loop: "retryLoop e primary request config context 0 [] None w = (primaryResult, w1)"
    by (simp add: callProviderWithRetry_def)
  from retryLoop_run[OF _ loop] obtain new rows where
    att: "pr_attempts primaryResult = new"
    and run: "retryRun e primary request config context 0 w new rows primaryResult w1"
    by auto
  have names: "\<forall>a \<in> set (pr_attempts primaryResult). a_provider a = ad_name primary"
  proof
    fix a assume "a \<in> set (pr_attempts primaryResult)"
    then obtain k where k: "k < length new" "new ! k = a"
      unfolding att by (auto simp: in_set_conv_nth)
    with run obtain lat out where "new ! k = attemptOf (ad_name primary) k lat out"
      unfolding retryRun_def by (metis add_0)
    with k have "a = attemptOf (ad_name primary) k lat out" by simp
    then show "a_provider a = ad_name primary" by (simp only: attemptOf_fields)
  qed
  from run have fu: "pr_fallbackUsed primaryResult = False" by (simp add: retryRun_def)
  show ?thesis
    using names fu by (auto simp add: callProviderWithFallback_def p)
qed

text \<open>Vendor A is down, vendor B answers: the fallback is used after three attempts.\<close>

lemma outage_primary_fails:
  "\<not> pr_success (fst (callProviderWithRetry outageEnv (VendorAAdapter outageEnv)
      demoRequest DEFAULT_RETRY_CONFIG demoContext demoWorld))"
  by (simp add: effect_defs repo_defs retry_defs pipeline_defs scenario_defs retryLoop.simps
      Let_def showNat.simps)

theorem callProviderWithFallback_cases_witness:
  "pr_fallbackUsed (fst (callProviderWithFallback outageEnv (VendorAAdapter outageEnv)
      (Some (VendorBAdapter outageEnv)) demoRequest DEFAULT_RETRY_CONFIG demoContext demoWorld))
   \<and> pr_attempts (fst (callProviderWithFallback outageEnv (VendorAAdapter outageEnv)
      (Some (VendorBAdapter outageEnv)) demoRequest DEFAULT_RETRY_CONFIG demoContext demoWorld))
     = pr_attempts (fst (callProviderWithRetry outageEnv (VendorAAdapter outageEnv)
          demoRequest DEFAULT_RETRY_CONFIG demoContext demoWorld))
       @ pr_attempts (fst (callProviderWithRetry outageEnv (VendorBAdapter outageEnv)
          demoRequest DEFAULT_RETRY_CONFIG demoContext
          (snd (callProviderWithRetry outageEnv (VendorAAdapter outageEnv)
             demoRequest DEFAULT_RETRY_CONFIG demoContext demoWorld))))"
proof -
  let ?p = "callProviderWithRetry outageEnv (VendorAAdapter outageEnv)
      demoRequest DEFAULT_RETRY_CONFIG demoContext demoWorld"
  let ?f = "callProviderWithRetry outageEnv (VendorBAdapter outageEnv)
      demoRequest DEFAULT_RETRY_CONFIG demoContext (snd ?p)"
  have p: "?p = (fst ?p, snd ?p)" by simp
  have f: "?f = (fst ?f, snd ?f)" by simp
  from callProviderWithFallback_cases [OF p, of "Some (VendorBAdapter outageEnv)"]
    outage_primary_fails f
  have "callProviderWithFallback outageEnv (VendorAAdapter outageEnv)
      (Some (VendorBAdapter outageEnv)) demoRequest DEFAULT_RETRY_CONFIG demoContext demoWorld
    = ((fst ?f)\<lparr>pr_attempts := pr_attempts (fst ?p) @ pr_attempts (fst ?f),
                 pr_fallbackUsed := True\<rparr>, snd ?f)"
    by blast
  then show ?thesis by simp
qed

section \<open>Frames of the pipeline\<close>

lemma callProviderWithRetry_run:
  assumes "callProviderWithRetry e p req cfg ctx w = (res, w')"
  shows "\<exists>rows. retryRun e p req cfg ctx 0 w (pr_attempts res) rows res w'"
proof -
  from assms have "retryLoop e p req cfg ctx 0 [] None w = (res, w')"
    by (simp add: callProviderWithRetry_def)
  from retryLoop_run[OF _ this] show ?thesis by auto
qed

lemma callProviderWithFallback_frame:
  assumes "callProviderWithFallback e p fb req cfg ctx w = (res, w')"
  shows "\<exists>rows. provider_call_events w' = provider_call_events w @ rows
           \<and> list_all2 (recordsAttempt ctx) rows (pr_attempts res)
           \<and> idempotency_records w' = idempotency_records w \<and> sessions w' = sessions w
           \<and> agents w' = agents w \<and> messages w' = messages w
           \<and> usage_events w' = usage_events w"
proof -
  obtain pres w1 where p: "callProviderWithRetry e p req cfg ctx w = (pres, w1)"
    by (cases "callProviderWithRetry e p req cfg ctx w")
  from callProviderWithRetry_run[OF p] obtain rows1 where
    r1: "retryRun e p req cfg ctx 0 w (pr_attempts pres) rows1 pres w1" by blast
  show ?thesis
  proof (cases "pr_success pres \<or> fb = None")
    case True
    with assms p have "res = pres" "w' = w1"
      by (auto simp add: callProviderWithFallback_def split: option.splits)
    with r1 show ?thesis unfolding retryRun_def by blast
  next
    case False
    then obtain f where f: "fb = Some f" by auto
    obtain fres w2 where q: "callProviderWithRetry e f req cfg ctx w1 = (fres, w2)"
      by (cases "callProviderWithRetry e f req cfg ctx w1")
    from callProviderWithRetry_run[OF q] obtain rows2 where
      r2: "retryRun e f req cfg ctx 0 w1 (pr_attempts fres) rows2 fres w2" by blast
    from False f assms p q have res: "pr_attempts res = pr_attempts pres @ pr_attempts fres"
      and w': "w' = w2"
      by (auto simp add: callProviderWithFallback_def)
    have "provider_call_events w2 = provider_call_events w @ (rows1 @ rows2)"
      using r1 r2 unfolding retryRun_def by simp
    moreover have "list_all2 (recordsAttempt ctx) (rows1 @ rows2) (pr_attempts res)"
      unfolding res using r1 r2 unfolding retryRun_def by (auto intro: list_all2_appendI)
    ultimately show ?thesis
      using r1 r2 w' unfolding retryRun_def by auto
  qed
qed

lemma find_append:
  "find P (xs @ ys) = (case find P xs of None \<Rightarrow> find P ys | Some x \<Rightarrow> Some x)"
  by (induction xs) simp_all

text \<open>What a passed gate leaves.\<close>

lemma idempotencyGate_continue:
  assumes "idempotencyGate e tenantId sessionId key content requestId w = (Inr K, w1)"
  shows "key = Some K \<and> K \<noteq> []
       \<and> (\<exists>r. IdempotencyRepo_lookup w1 tenantId ''send_message'' K = Some r \<and> \<not> populated r)
       \<and> sessions w1 = sessions w \<and> agents w1 = agents w \<and> messages w1 = messages w
       \<and> provider_call_events w1 = provider_call_events w \<and> usage_events w1 = usage_events w
       \<and> vendorCalls w1 = vendorCalls w"
  using assms
  apply (simp add: idempotencyGate_def Let_def split: if_splits prod.splits sum.splits)
  apply (auto simp add: IdempotencyRepo_create_def prisma_idempotencyRecord_create_def
      computeRequestHash_def generateIdempotencyId_def generateId_def Date_now_def
      IdempotencyRepo_lookup_def populated_def Let_def find_append
      split: if_splits prod.splits sum.splits option.splits)
  done

text \<open>What the second part leaves when it hands over a turn.\<close>

lemma persistUserTurn_continue:
  assumes "persistUserTurn e tenantId sessionId content requestId w = (Inr t, w2)"
  shows "\<exists>s. SessionRepo_findById w tenantId sessionId = Some s
       \<and> AgentRepo_findById w tenantId (ses_agentId s) = Some (turn_agent t)
       \<and> turn_agentId t = ses_agentId s
       \<and> getProviderAdapter e (agt_primaryProvider (turn_agent t)) = Inr (turn_primary t)
       \<and> messages w2 = messages w @
            [\<lparr>msg_id = ''msg_'' @ uuidOracle e (uuidsDrawn w), msg_tenantId = tenantId,
              msg_sessionId = sessionId, msg_role = ''user'', msg_content = content,
              msg_createdAt = nowOracle e (clockReads w)\<rparr>]
       \<and> sessions w2 = (sessions w)
            (sessionId \<mapsto> s\<lparr>ses_lastActivityAt := nowOracle e (Suc (clockReads w))\<rparr>)
       \<and> idempotency_records w2 = idempotency_records w \<and> agents w2 = agents w
       \<and> provider_call_events w2 = provider_call_events w \<and> usage_events w2 = usage_events w
       \<and> vendorCalls w2 = vendorCalls w"
  using assms
  by (auto simp add: persistUserTurn_def SessionRepo_findById_def AgentRepo_findById_def
      generateMessageId_def generateId_def MessageRepo_create_def Date_now_def
      SessionRepo_updateLastActivity_def Let_def
      split: if_splits prod.splits sum.splits option.splits)

section \<open>Replay\<close>

lemma markReplayed_only_flag:
  "smr_message (markReplayed r) = smr_message r"
  "ri_replayed (md_idempotency (smr_metadata (markReplayed r)))"
  "(markReplayed r)\<lparr>smr_metadata := (smr_metadata (markReplayed r))
       \<lparr>md_idempotency := (md_idempotency (smr_metadata (markReplayed r)))
          \<lparr>ri_replayed := ri_replayed (md_idempotency (smr_metadata r))\<rparr>\<rparr>\<rparr> = r"
  by (simp_all add: markReplayed_def)

text \<open>
  C2. When the idempotency record of \<open>(tenantId, 'send_message', K)\<close> has a
  populated response that parses to \<open>envelope\<close>, \<open>sendMessage\<close> with that tenant
  and key returns \<open>envelope\<close> with \<open>metadata.idempotency.replayed\<close> set to true and
  nothing else changed (setting the flag back gives \<open>envelope\<close>), and leaves the
  world as it was: no message, attempt, usage event or idempotency record is
  written, no vendor is called.
\<close>

theorem sendMessage_replay:
  assumes "K \<noteq> []"
    and "IdempotencyRepo_lookup w tenantId ''send_message'' K = Some stored"
    and "idem_responseJson stored = Some responseJson"
    and "responseJson \<noteq> []"
    and "parseResponseOracle e responseJson = Some envelope"
  shows "sendMessage e tenantId sessionId (Some K) content requestId w
           = (Inr (markReplayed envelope), w)
       \<and> smr_message (markReplayed envelope) = smr_message envelope
       \<and> ri_replayed (md_idempotency (smr_metadata (markReplayed envelope)))
       \<and> (markReplayed envelope)\<lparr>smr_metadata := (smr_metadata (markReplayed envelope))
            \<lparr>md_idempotency := (md_idempotency (smr_metadata (markReplayed envelope)))
               \<lparr>ri_replayed := ri_replayed (md_idempotency (smr_metadata envelope))\<rparr>\<rparr>\<rparr>
           = envelope"
  using assms
  by (simp add: sendMessage_def idempotencyGate_def populated_def replayStored_def
      markReplayed_only_flag)

theorem sendMessage_replay_witness:
  "sendMessage demoEnv ''tnt_1'' ''ses_1'' (Some ''K1'') ''world'' ''req_2'' completedWorld
     = (Inr (markReplayed demoEnvelope), completedWorld)"
proof -
  have "IdempotencyRepo_lookup completedWorld ''tnt_1'' ''send_message'' ''K1''
      = Some (hd (idempotency_records completedWorld))"
    by (simp add: IdempotencyRepo_lookup_def completedWorld_def)
  moreover have "idem_responseJson (hd (idempotency_records completedWorld)) = Some ''{envelope}''"
    by (simp add: completedWorld_def)
  moreover have "parseResponseOracle demoEnv ''{envelope}'' = Some demoEnvelope"
    by (simp add: demoEnv_def)
  ultimately show ?thesis
    using sendMessage_replay [of "''K1''" completedWorld "''tnt_1''" _ "''{envelope}''" demoEnv
        demoEnvelope "''ses_1''" "''world''" "''req_2''"]
    by simp
qed

section \<open>Total vendor failure\<close>

lemma lookup_cong:
  "idempotency_records w' = idempotency_records w \<Longrightarrow>
   IdempotencyRepo_lookup w' tenantId scope K = IdempotencyRepo_lookup w tenantId scope K"
  by (simp add: IdempotencyRepo_lookup_def)

lemma deliver_failure:
  assumes "callProviderWithFallback e (turn_primary t) (turn_fallback t) (turn_request t)
             DEFAULT_RETRY_CONFIG
             \<lparr>ctx_tenantId = tenantId, ctx_sessionId = sessionId,
              ctx_agentId = turn_agentId t, ctx_requestId = requestId\<rparr> w = (providerResult, w')"
    and "\<not> pr_success providerResult"
  shows "deliver e tenantId sessionId K requestId t w
     = (Inl (ALL_PROVIDERS_FAILED (agt_primaryProvider (turn_agent t))
               (agt_fallbackProvider (turn_agent t)) (pr_attempts providerResult) requestId), w')"
  using assms by (simp add: deliver_def Let_def)

theorem sendMessage_all_providers_failed:
  assumes gate: "idempotencyGate e tenantId sessionId key content requestId w = (Inr K, w1)"
    and turn: "persistUserTurn e tenantId sessionId content requestId w1 = (Inr t, w2)"
    and call: "callProviderWithFallback e (turn_primary t) (turn_fallback t) (turn_request t)
                 DEFAULT_RETRY_CONFIG
                 \<lparr>ctx_tenantId = tenantId, ctx_sessionId = sessionId,
                  ctx_agentId = turn_agentId t, ctx_requestId = requestId\<rparr> w2
               = (providerResult, w3)"
    and fail: "\<not> pr_success providerResult"
  shows "sendMessage e tenantId sessionId key content requestId w
           = (Inl (ALL_PROVIDERS_FAILED (agt_primaryProvider (turn_agent t))
                     (agt_fallbackProvider (turn_agent t)) (pr_attempts providerResult)
                     requestId), w3)
       \<and> (\<exists>s. SessionRepo_findById w tenantId sessionId = Some s
              \<and> AgentRepo_findById w tenantId (ses_agentId s) = Some (turn_agent t))
       \<and> messages w3 = messages w @
            [\<lparr>msg_id = ''msg_'' @ uuidOracle e (uuidsDrawn w1), msg_tenantId = tenantId,
              msg_sessionId = sessionId, msg_role = ''user'', msg_content = content,
              msg_createdAt = nowOracle e (clockReads w1)\<rparr>]
       \<and> usage_events w3 = usage_events w
       \<and> (\<exists>r. IdempotencyRepo_lookup w3 tenantId ''send_message'' K = Some r \<and> \<not> populated r)
       \<and> (\<exists>rows. provider_call_events w3 = provider_call_events w @ rows
              \<and> list_all2 (recordsAttempt
                    \<lparr>ctx_tenantId = tenantId, ctx_sessionId = sessionId,
                     ctx_agentId = turn_agentId t, ctx_requestId = requestId\<rparr>)
                   rows (pr_attempts providerResult))"
proof -
  note g = idempotencyGate_continue[OF gate]
  from persistUserTurn_continue[OF turn] obtain s where
    s: "SessionRepo_findById w1 tenantId sessionId = Some s"
      "AgentRepo_findById w1 tenantId (ses_agentId s) = Some (turn_agent t)"
    and m: "messages w2 = messages w1 @
            [\<lparr>msg_id = ''msg_'' @ uuidOracle e (uuidsDrawn w1), msg_tenantId = tenantId,
              msg_sessionId = sessionId, msg_role = ''user'', msg_content = content,
              msg_createdAt = nowOracle e (clockReads w1)\<rparr>]"
    and f2: "idempotency_records w2 = idempotency_records w1"
      "provider_call_events w2 = provider_call_events w1" "usage_events w2 = usage_events w1"
    by blast
  from callProviderWithFallback_frame[OF call] obtain rows where
    rows: "provider_call_events w3 = provider_call_events w2 @ rows"
      "list_all2 (recordsAttempt \<lparr>ctx_tenantId = tenantId, ctx_sessionId = sessionId,
         ctx_agentId = turn_agentId t, ctx_requestId = requestId\<rparr>) rows
         (pr_attempts providerResult)"
    and f3: "idempotency_records w3 = idempotency_records w2" "messages w3 = messages w2"
      "usage_events w3 = usage_events w2"
    by blast
  have send: "sendMessage e tenantId sessionId key content requestId w
           = (Inl (ALL_PROVIDERS_FAILED (agt_primaryProvider (turn_agent t))
                     (agt_fallbackProvider (turn_agent t)) (pr_attempts providerResult)
                     requestId), w3)"
    by (simp add: sendMessage_def gate turn deliver_failure[OF call fail])
  have own: "\<exists>s. SessionRepo_findById w tenantId sessionId = Some s
              \<and> AgentRepo_findById w tenantId (ses_agentId s) = Some (turn_agent t)"
    using s g by (auto simp add: SessionRepo_findById_def AgentRepo_findById_def)
  have idem: "\<exists>r. IdempotencyRepo_lookup w3 tenantId ''send_message'' K = Some r \<and> \<not> populated r"
    using g lookup_cong[of w3 w1 tenantId "''send_message''" K] f2 f3 by auto
  show ?thesis
    using send own idem m f2 f3 rows g by auto
qed

text \<open>Only the vendors' total failure raises \<open>ALL_PROVIDERS_FAILED\<close>.\<close>

lemma sendMessage_failure_origin:
  assumes "sendMessage e tenantId sessionId key content requestId w
             = (Inl (ALL_PROVIDERS_FAILED p f atts rid), w')"
  shows "\<exists>K w1 t w2 providerResult.
           idempotencyGate e tenantId sessionId key content requestId w = (Inr K, w1)
         \<and> persistUserTurn e tenantId sessionId content requestId w1 = (Inr t, w2)
         \<and> callProviderWithFallback e (turn_primary t) (turn_fallback t) (turn_request t)
               DEFAULT_RETRY_CONFIG
               \<lparr>ctx_tenantId = tenantId, ctx_sessionId = sessionId,
                ctx_agentId = turn_agentId t, ctx_requestId = requestId\<rparr> w2
             = (providerResult, w')
         \<and> (\<not> pr_success providerResult \<or> pr_response providerResult = None)
         \<and> deliver e tenantId sessionId K requestId t w2
             = (Inl (ALL_PROVIDERS_FAILED p f atts rid), w')"
proof -
  obtain g w1 where gate: "idempotencyGate e tenantId sessionId key content requestId w = (g, w1)"
    by (cases "idempotencyGate e tenantId sessionId key content requestId w")
  have gl: "g \<noteq> Inl (Inl (ALL_PROVIDERS_FAILED p f atts rid))"
    using gate
    by (auto simp add: idempotencyGate_def replayStored_def IdempotencyRepo_create_def
        prisma_idempotencyRecord_create_def Let_def
        split: if_splits prod.splits sum.splits option.splits)
  with assms gate obtain K where K: "g = Inr K"
    by (cases g) (auto simp add: sendMessage_def)
  obtain u w2 where turn: "persistUserTurn e tenantId sessionId content requestId w1 = (u, w2)"
    by (cases "persistUserTurn e tenantId sessionId content requestId w1")
  have ul: "u \<noteq> Inl (Inl (ALL_PROVIDERS_FAILED p f atts rid))"
    using turn
    by (auto simp add: persistUserTurn_def getProviderAdapter_def
        SessionRepo_updateLastActivity_def Let_def
        split: if_splits prod.splits sum.splits option.splits)
  with assms gate K turn obtain t where t: "u = Inr t"
    by (cases u) (auto simp add: sendMessage_def)
  from assms gate K turn t have d: "deliver e tenantId sessionId K requestId t w2
      = (Inl (ALL_PROVIDERS_FAILED p f atts rid), w')"
    by (simp add: sendMessage_def)
  obtain pr w3 where call: "callProviderWithFallback e (turn_primary t) (turn_fallback t)
      (turn_request t) DEFAULT_RETRY_CONFIG
      \<lparr>ctx_tenantId = tenantId, ctx_sessionId = sessionId,
       ctx_agentId = turn_agentId t, ctx_requestId = requestId\<rparr> w2 = (pr, w3)"
    by (cases "callProviderWithFallback e (turn_primary t) (turn_fallback t)
      (turn_request t) DEFAULT_RETRY_CONFIG
      \<lparr>ctx_tenantId = tenantId, ctx_sessionId = sessionId,
       ctx_agentId = turn_agentId t, ctx_requestId = requestId\<rparr> w2")
  from d call have "(\<not> pr_success pr \<or> pr_response pr = None) \<and> w3 = w'"
    by (auto simp add: deliver_def calculateCost_def IdempotencyRepo_updateResponse_def Let_def
        split: if_splits prod.splits sum.splits option.splits)
  with gate K turn t call d show ?thesis by blast
qed

section \<open>The session row\<close>

lemma idempotencyGate_sessions:
  "sessions (snd (idempotencyGate e tenantId sessionId key content requestId w)) = sessions w"
  by (auto simp add: idempotencyGate_def IdempotencyRepo_create_def
      prisma_idempotencyRecord_create_def computeRequestHash_def generateIdempotencyId_def
      generateId_def Date_now_def Let_def
      split: if_splits prod.splits sum.splits option.splits)

lemma persistUserTurn_sessions:
  "sessions (snd (persistUserTurn e tenantId sessionId content requestId w)) = sessions w
   \<or> (\<exists>s. SessionRepo_findById w tenantId sessionId = Some s
         \<and> sessions (snd (persistUserTurn e tenantId sessionId content requestId w))
           = (sessions w)(sessionId \<mapsto> s\<lparr>ses_lastActivityAt := nowOracle e (Suc (clockReads w))\<rparr>))"
  by (auto simp add: persistUserTurn_def SessionRepo_findById_def AgentRepo_findById_def
      generateMessageId_def generateId_def MessageRepo_create_def Date_now_def
      SessionRepo_updateLastActivity_def Let_def
      split: if_splits prod.splits sum.splits option.splits)

lemma deliver_sessions:
  "sessions (snd (deliver e tenantId sessionId K requestId t w)) = sessions w"
proof -
  obtain pr w1 where call: "callProviderWithFallback e (turn_primary t) (turn_fallback t)
      (turn_request t) DEFAULT_RETRY_CONFIG
      \<lparr>ctx_tenantId = tenantId, ctx_sessionId = sessionId,
       ctx_agentId = turn_agentId t, ctx_requestId = requestId\<rparr> w = (pr, w1)"
    by (cases "callProviderWithFallback e (turn_primary t) (turn_fallback t)
      (turn_request t) DEFAULT_RETRY_CONFIG
      \<lparr>ctx_tenantId = tenantId, ctx_sessionId = sessionId,
       ctx_agentId = turn_agentId t, ctx_requestId = requestId\<rparr> w")
  from callProviderWithFallback_frame[OF call] have "sessions w1 = sessions w" by blast
  then show ?thesis
    using call
    by (auto simp add: deliver_def generateMessageId_def generateEventId_def generateId_def
        MessageRepo_create_def UsageEventRepo_create_def Date_now_def
        IdempotencyRepo_updateResponse_def Let_def
        split: if_splits prod.splits sum.splits option.splits)
qed

theorem sendMessage_session_touch:
  "case sendMessage e tenantId sessionId key content requestId w of (res, w') \<Rightarrow>
     (sessions w' = sessions w
      \<or> (\<exists>s. SessionRepo_findById w tenantId sessionId = Some s
            \<and> (\<exists>stamp. sessions w' = (sessions w)(sessionId \<mapsto> s\<lparr>ses_lastActivityAt := stamp\<rparr>))))
     \<and> (\<forall>p f atts rid. res = Inl (ALL_PROVIDERS_FAILED p f atts rid) \<longrightarrow>
          (\<exists>s K w1 t w2.
             idempotencyGate e tenantId sessionId key content requestId w = (Inr K, w1)
           \<and> persistUserTurn e tenantId sessionId content requestId w1 = (Inr t, w2)
           \<and> SessionRepo_findById w tenantId sessionId = Some s
           \<and> messages w2 = messages w @
                [\<lparr>msg_id = ''msg_'' @ uuidOracle e (uuidsDrawn w1), msg_tenantId = tenantId,
                  msg_sessionId = sessionId, msg_role = ''user'', msg_content = content,
                  msg_createdAt = nowOracle e (clockReads w1)\<rparr>]
           \<and> sessions w2 = (sessions w)
                (sessionId \<mapsto> s\<lparr>ses_lastActivityAt := nowOracle e (Suc (clockReads w1))\<rparr>)
           \<and> vendorCalls w2 = vendorCalls w
           \<and> deliver e tenantId sessionId K requestId t w2 = (res, w')
           \<and> sessions w' = sessions w2))"
proof -
  obtain res w' where send: "sendMessage e tenantId sessionId key content requestId w = (res, w')"
    by (cases "sendMessage e tenantId sessionId key content requestId w")
  obtain g w1 where gate: "idempotencyGate e tenantId sessionId key content requestId w = (g, w1)"
    by (cases "idempotencyGate e tenantId sessionId key content requestId w")
  have s1: "sessions w1 = sessions w"
    using idempotencyGate_sessions[of e tenantId sessionId key content requestId w] gate by simp
  have frame: "sessions w' = sessions w
      \<or> (\<exists>s. SessionRepo_findById w tenantId sessionId = Some s
            \<and> (\<exists>stamp. sessions w' = (sessions w)(sessionId \<mapsto> s\<lparr>ses_lastActivityAt := stamp\<rparr>)))"
  proof (cases g)
    case (Inl early)
    with send gate s1 show ?thesis by (simp add: sendMessage_def)
  next
    case (Inr K)
    obtain u w2 where turn: "persistUserTurn e tenantId sessionId content requestId w1 = (u, w2)"
      by (cases "persistUserTurn e tenantId sessionId content requestId w1")
    have f1: "SessionRepo_findById w1 tenantId sessionId = SessionRepo_findById w tenantId sessionId"
      using s1 by (simp add: SessionRepo_findById_def)
    have s2: "sessions w2 = sessions w
      \<or> (\<exists>s. SessionRepo_findById w tenantId sessionId = Some s
            \<and> (\<exists>stamp. sessions w2 = (sessions w)(sessionId \<mapsto> s\<lparr>ses_lastActivityAt := stamp\<rparr>)))"
      using persistUserTurn_sessions[of e tenantId sessionId content requestId w1] turn s1 f1
      by auto
    show ?thesis
    proof (cases u)
      case (Inl early)
      with send gate Inr turn s2 show ?thesis by (simp add: sendMessage_def)
    next
      case (Inr t)
      with send gate \<open>g = Inr K\<close> turn
      have "deliver e tenantId sessionId K requestId t w2 = (res, w')"
        by (simp add: sendMessage_def)
      then have "sessions w' = sessions w2"
        using deliver_sessions[of e tenantId sessionId K requestId t w2] by simp
      with s2 show ?thesis by simp
    qed
  qed
  have failed: "\<forall>p f atts rid. res = Inl (ALL_PROVIDERS_FAILED p f atts rid) \<longrightarrow>
          (\<exists>s K w1 t w2.
             idempotencyGate e tenantId sessionId key content requestId w = (Inr K, w1)
           \<and> persistUserTurn e tenantId sessionId content requestId w1 = (Inr t, w2)
           \<and> SessionRepo_findById w tenantId sessionId = Some s
           \<and> messages w2 = messages w @
                [\<lparr>msg_id = ''msg_'' @ uuidOracle e (uuidsDrawn w1), msg_tenantId = tenantId,
                  msg_sessionId = sessionId, msg_role = ''user'', msg_content = content,
                  msg_createdAt = nowOracle e (clockReads w1)\<rparr>]
           \<and> sessions w2 = (sessions w)
                (sessionId \<mapsto> s\<lparr>ses_lastActivityAt := nowOracle e (Suc (clockReads w1))\<rparr>)
           \<and> vendorCalls w2 = vendorCalls w
           \<and> deliver e tenantId sessionId K requestId t w2 = (res, w')
           \<and> sessions w' = sessions w2)"
  proof (intro allI impI)
    fix p f atts rid assume r: "res = Inl (ALL_PROVIDERS_FAILED p f atts rid)"
    from sendMessage_failure_origin[OF send[unfolded r]] obtain K w1 t w2 where
      g: "idempotencyGate e tenantId sessionId key content requestId w = (Inr K, w1)"
      and t: "persistUserTurn e tenantId sessionId content requestId w1 = (Inr t, w2)"
      and d: "deliver e tenantId sessionId K requestId t w2
                = (Inl (ALL_PROVIDERS_FAILED p f atts rid), w')"
      by blast
    note gc = idempotencyGate_continue[OF g]
    from persistUserTurn_continue[OF t] obtain s where
      s: "SessionRepo_findById w1 tenantId sessionId = Some s"
      and m: "messages w2 = messages w1 @
            [\<lparr>msg_id = ''msg_'' @ uuidOracle e (uuidsDrawn w1), msg_tenantId = tenantId,
              msg_sessionId = sessionId, msg_role = ''user'', msg_content = content,
              msg_createdAt = nowOracle e (clockReads w1)\<rparr>]"
      and ss: "sessions w2 = (sessions w1)
            (sessionId \<mapsto> s\<lparr>ses_lastActivityAt := nowOracle e (Suc (clockReads w1))\<rparr>)"
      and v: "vendorCalls w2 = vendorCalls w1"
      by blast
    have s': "SessionRepo_findById w tenantId sessionId = Some s"
      using s gc by (simp add: SessionRepo_findById_def)
    have last: "sessions w' = sessions w2"
      using deliver_sessions[of e tenantId sessionId K requestId t w2] d by simp
    show "\<exists>s K w1 t w2.
             idempotencyGate e tenantId sessionId key content requestId w = (Inr K, w1)
           \<and> persistUserTurn e tenantId sessionId content requestId w1 = (Inr t, w2)
           \<and> SessionRepo_findById w tenantId sessionId = Some s
           \<and> messages w2 = messages w @
                [\<lparr>msg_id = ''msg_'' @ uuidOracle e (uuidsDrawn w1), msg_tenantId = tenantId,
                  msg_sessionId = sessionId, msg_role = ''user'', msg_content = content,
                  msg_createdAt = nowOracle e (clockReads w1)\<rparr>]
           \<and> sessions w2 = (sessions w)
                (sessionId \<mapsto> s\<lparr>ses_lastActivityAt := nowOracle e (Suc (clockReads w1))\<rparr>)
           \<and> vendorCalls w2 = vendorCalls w
           \<and> deliver e tenantId sessionId K requestId t w2 = (res, w')
           \<and> sessions w' = sessions w2"
      using g t s' m ss v d last gc r by auto
  qed
  show ?thesis
    unfolding send using frame failed by simp
qed

end
